theory Spec2Isabelle
  imports Complex_Main
begin

section \<open>Authority model (ora/core/authority.py)\<close>

text \<open>
  The enum \<open>AuthorityLevel\<close> with its integer values, the requirements table of
  \<open>get_authority_requirements\<close>, \<open>is_operation_authorized\<close> and
  \<open>get_byzantine_quorum_size\<close>. Python's unbounded \<open>int\<close> is \<open>int\<close>; the float
  trust thresholds are the decimal literals of the source, as rationals.
\<close>

datatype AuthorityLevel =
  READ_ONLY | SAFE_COMPUTE | INFO_RETRIEVAL | FILE_READ | FILE_WRITE | SYSTEM_EXEC

fun level_value :: "AuthorityLevel \<Rightarrow> int" where
  "level_value READ_ONLY = 0"
| "level_value SAFE_COMPUTE = 1"
| "level_value INFO_RETRIEVAL = 2"
| "level_value FILE_READ = 3"
| "level_value FILE_WRITE = 4"
| "level_value SYSTEM_EXEC = 5"

text \<open>\<open>list(AuthorityLevel)\<close>: the members in definition order.\<close>

definition all_levels :: "AuthorityLevel list" where
  "all_levels = [READ_ONLY, SAFE_COMPUTE, INFO_RETRIEVAL, FILE_READ, FILE_WRITE, SYSTEM_EXEC]"

fun name_display :: "AuthorityLevel \<Rightarrow> string" where
  "name_display READ_ONLY = ''A0: READ_ONLY''"
| "name_display SAFE_COMPUTE = ''A1: SAFE_COMPUTE''"
| "name_display INFO_RETRIEVAL = ''A2: INFO_RETRIEVAL''"
| "name_display FILE_READ = ''A3: FILE_READ''"
| "name_display FILE_WRITE = ''A4: FILE_WRITE''"
| "name_display SYSTEM_EXEC = ''A5: SYSTEM_EXEC''"

text \<open>\<open>str(level)\<close> of an \<open>Enum\<close> member: class name, a dot, member name.\<close>

fun level_str :: "AuthorityLevel \<Rightarrow> string" where
  "level_str READ_ONLY = ''AuthorityLevel.READ_ONLY''"
| "level_str SAFE_COMPUTE = ''AuthorityLevel.SAFE_COMPUTE''"
| "level_str INFO_RETRIEVAL = ''AuthorityLevel.INFO_RETRIEVAL''"
| "level_str FILE_READ = ''AuthorityLevel.FILE_READ''"
| "level_str FILE_WRITE = ''AuthorityLevel.FILE_WRITE''"
| "level_str SYSTEM_EXEC = ''AuthorityLevel.SYSTEM_EXEC''"

record AuthorityRequirements =
  level :: AuthorityLevel
  approval_needed :: bool
  consensus_required :: int
  trust_threshold :: rat
  sandbox_required :: bool
  skills_allowed :: "string list"
  rate_limits :: "(string \<times> int) list"

fun get_authority_requirements :: "AuthorityLevel \<Rightarrow> AuthorityRequirements" where
  "get_authority_requirements READ_ONLY =
     \<lparr>level = READ_ONLY, approval_needed = False, consensus_required = 0,
      trust_threshold = 0, sandbox_required = False,
      skills_allowed = [''read_docs''],
      rate_limits = [(''per_minute'', 1000), (''per_hour'', 10000)]\<rparr>"
| "get_authority_requirements SAFE_COMPUTE =
     \<lparr>level = SAFE_COMPUTE, approval_needed = False, consensus_required = 0,
      trust_threshold = 8 / 10, sandbox_required = False,
      skills_allowed = [''math'', ''text_analysis'', ''format''],
      rate_limits = [(''per_minute'', 500), (''per_hour'', 5000)]\<rparr>"
| "get_authority_requirements INFO_RETRIEVAL =
     \<lparr>level = INFO_RETRIEVAL, approval_needed = False, consensus_required = 0,
      trust_threshold = 8 / 10, sandbox_required = False,
      skills_allowed = [''web_search'', ''api_query_get''],
      rate_limits = [(''per_minute'', 100), (''per_hour'', 1000)]\<rparr>"
| "get_authority_requirements FILE_READ =
     \<lparr>level = FILE_READ, approval_needed = False, consensus_required = 0,
      trust_threshold = 8 / 10, sandbox_required = False,
      skills_allowed = [''file_read'', ''dir_list''],
      rate_limits = [(''per_minute'', 200), (''per_hour'', 2000)]\<rparr>"
| "get_authority_requirements FILE_WRITE =
     \<lparr>level = FILE_WRITE, approval_needed = True, consensus_required = 4,
      trust_threshold = 9 / 10, sandbox_required = True,
      skills_allowed = [''file_write'', ''file_delete''],
      rate_limits = [(''per_minute'', 50), (''per_hour'', 500)]\<rparr>"
| "get_authority_requirements SYSTEM_EXEC =
     \<lparr>level = SYSTEM_EXEC, approval_needed = True, consensus_required = 7,
      trust_threshold = 95 / 100, sandbox_required = True,
      skills_allowed = [''shell_exec'', ''system_modify'', ''network_write''],
      rate_limits = [(''per_minute'', 10), (''per_hour'', 100)]\<rparr>"

definition is_operation_authorized :: "AuthorityLevel \<Rightarrow> AuthorityLevel \<Rightarrow> bool" where
  "is_operation_authorized operation_level agent_level \<longleftrightarrow>
     level_value agent_level \<ge> level_value operation_level"

text \<open>
  \<open>get_byzantine_quorum_size(authority_level, fault_tolerance=1)\<close>: the second argument
  is explicit here, and \<open>default_fault_tolerance\<close> is the value a one-argument call uses.
\<close>

definition default_fault_tolerance :: int where
  "default_fault_tolerance = 1"

definition get_byzantine_quorum_size :: "AuthorityLevel \<Rightarrow> int \<Rightarrow> int" where
  "get_byzantine_quorum_size authority_level fault_tolerance =
     (if level_value authority_level < level_value FILE_WRITE then 0
      else 3 * fault_tolerance + 1)"

section \<open>Python strings, JSON and the standard library\<close>

text \<open>
  A Python \<open>str\<close> is a \<open>string\<close> whose characters stand for code points below 256.
  The functions below are the string methods the kernel's code calls, on that range.
\<close>

definition chr :: "nat \<Rightarrow> char" where
  "chr n = char_of n"

definition lower_char :: "char \<Rightarrow> char" where
  "lower_char c =
     (let n = (of_char c :: nat)
      in if (65 \<le> n \<and> n \<le> 90) \<or> (192 \<le> n \<and> n \<le> 222 \<and> n \<noteq> 215)
         then chr (n + 32) else c)"

definition py_lower :: "string \<Rightarrow> string" where
  "py_lower s = map lower_char s"

definition starts_with :: "string \<Rightarrow> string \<Rightarrow> bool" where
  "starts_with s pre \<longleftrightarrow> take (length pre) s = pre"

text \<open>\<open>sub in s\<close> on strings.\<close>

fun py_in :: "string \<Rightarrow> string \<Rightarrow> bool" where
  "py_in sub [] = (sub = [])"
| "py_in sub (c # cs) = (starts_with (c # cs) sub \<or> py_in sub cs)"

definition is_space :: "char \<Rightarrow> bool" where
  "is_space c \<longleftrightarrow> (of_char c :: nat) \<in> {9, 10, 11, 12, 13, 28, 29, 30, 31, 32, 133, 160}"

definition py_strip :: "string \<Rightarrow> string" where
  "py_strip s = rev (dropWhile is_space (rev (dropWhile is_space s)))"

text \<open>\<open>s.split()\<close>: the maximal runs of non-whitespace characters.\<close>

fun split_ws_acc :: "string \<Rightarrow> string \<Rightarrow> string list" where
  "split_ws_acc [] cur = (if cur = [] then [] else [rev cur])"
| "split_ws_acc (c # cs) cur =
     (if is_space c
      then (if cur = [] then split_ws_acc cs [] else rev cur # split_ws_acc cs [])
      else split_ws_acc cs (c # cur))"

definition py_split_ws :: "string \<Rightarrow> string list" where
  "py_split_ws s = split_ws_acc s []"

text \<open>
  \<open>s.split(sep)\<close> for a non-empty separator: the scan goes left to right and, after a
  match, skips the separator (\<open>skip\<close> counts the characters of it still to pass).
\<close>

fun split_acc :: "string \<Rightarrow> string \<Rightarrow> nat \<Rightarrow> string \<Rightarrow> string list" where
  "split_acc sep [] skip cur = [rev cur]"
| "split_acc sep (c # cs) skip cur =
     (if skip > 0 then split_acc sep cs (skip - 1) cur
      else if starts_with (c # cs) sep then rev cur # split_acc sep cs (length sep - 1) []
      else split_acc sep cs 0 (c # cur))"

definition py_split :: "string \<Rightarrow> string \<Rightarrow> string list" where
  "py_split s sep = split_acc sep s 0 []"

fun join :: "string \<Rightarrow> string list \<Rightarrow> string" where
  "join sep [] = []"
| "join sep [x] = x"
| "join sep (x # y # ys) = x @ sep @ join sep (y # ys)"

definition digit_char :: "nat \<Rightarrow> char" where
  "digit_char d = chr (48 + d)"

function str_nat :: "nat \<Rightarrow> string" where
  "str_nat n = (if n < 10 then [digit_char n] else str_nat (n div 10) @ [digit_char (n mod 10)])"
  by pat_completeness auto
termination
  by (relation \<open>measure id\<close>) auto

declare str_nat.simps [simp del]

text \<open>\<open>str(n)\<close> of an \<open>int\<close>.\<close>

definition py_str_int :: "int \<Rightarrow> string" where
  "py_str_int i = (if i < 0 then CHR ''-'' # str_nat (nat (- i)) else str_nat (nat i))"

text \<open>\<open>s.encode()\<close>: UTF-8, one byte below 128 and two bytes from 128 to 255.\<close>

definition utf8_char :: "char \<Rightarrow> string" where
  "utf8_char c =
     (let n = (of_char c :: nat)
      in if n < 128 then [c] else [chr (192 + n div 64), chr (128 + n mod 64)])"

definition py_encode :: "string \<Rightarrow> string" where
  "py_encode s = concat (map utf8_char s)"

subsection \<open>json.dumps\<close>

text \<open>
  The JSON values the kernel serialises: strings, integers, booleans, \<open>None\<close>, lists and
  dictionaries with string keys (in insertion order). \<open>json_dumps sort_keys v\<close> is
  \<open>json.dumps(v, sort_keys=sort_keys)\<close> with the default separators and
  \<open>ensure_ascii\<close>: every character outside \<open>' '..'~'\<close>, the quote and the backslash are
  escaped.
\<close>

datatype json =
  JNull | JBool bool | JInt int | JStr string | JArr "json list" | JObj "(string \<times> json) list"

definition hex_digit :: "nat \<Rightarrow> char" where
  "hex_digit d = (if d < 10 then chr (48 + d) else chr (87 + d))"

definition json_escape_char :: "char \<Rightarrow> string" where
  "json_escape_char c =
     (let n = (of_char c :: nat)
      in if n = 34 then [chr 92, chr 34]
         else if n = 92 then [chr 92, chr 92]
         else if n = 8 then [chr 92, CHR ''b'']
         else if n = 12 then [chr 92, CHR ''f'']
         else if n = 10 then [chr 92, CHR ''n'']
         else if n = 13 then [chr 92, CHR ''r'']
         else if n = 9 then [chr 92, CHR ''t'']
         else if 32 \<le> n \<and> n \<le> 126 then [c]
         else [chr 92, CHR ''u'', CHR ''0'', CHR ''0'', hex_digit (n div 16), hex_digit (n mod 16)])"

definition json_quote :: "string \<Rightarrow> string" where
  "json_quote s = [chr 34] @ concat (map json_escape_char s) @ [chr 34]"

text \<open>Order of dictionary keys under \<open>sort_keys\<close>: code point by code point.\<close>

fun str_less :: "string \<Rightarrow> string \<Rightarrow> bool" where
  "str_less [] [] = False"
| "str_less [] (y # ys) = True"
| "str_less (x # xs) [] = False"
| "str_less (x # xs) (y # ys) =
     ((of_char x :: nat) < of_char y \<or> (x = y \<and> str_less xs ys))"

fun insert_item :: "string \<times> 'a \<Rightarrow> (string \<times> 'a) list \<Rightarrow> (string \<times> 'a) list" where
  "insert_item kv [] = [kv]"
| "insert_item kv (x # xs) =
     (if str_less (fst kv) (fst x) then kv # x # xs else x # insert_item kv xs)"

definition sort_items :: "(string \<times> 'a) list \<Rightarrow> (string \<times> 'a) list" where
  "sort_items kvs = foldr insert_item (rev kvs) []"

fun json_dumps :: "bool \<Rightarrow> json \<Rightarrow> string" where
  "json_dumps sk JNull = ''null''"
| "json_dumps sk (JBool b) = (if b then ''true'' else ''false'')"
| "json_dumps sk (JInt i) = py_str_int i"
| "json_dumps sk (JStr s) = json_quote s"
| "json_dumps sk (JArr xs) = ''['' @ join '', '' (map (json_dumps sk) xs) @ '']''"
| "json_dumps sk (JObj kvs) =
     ''{'' @ join '', ''
        (map (\<lambda>kv. json_quote (fst kv) @ '': '' @ snd kv)
           ((if sk then sort_items else (\<lambda>l. l))
              (map (\<lambda>kv. (fst kv, json_dumps sk (snd kv))) kvs))) @ ''}''"

subsection \<open>Python values\<close>

text \<open>
  The values a request dictionary holds: what \<open>json.loads\<close> builds (\<open>None\<close>, booleans,
  integers, floats, strings, lists, and dictionaries with string keys). A float is a
  number, an infinity or a NaN. \<open>py_truthy v\<close> is \<open>bool(v)\<close>, \<open>type_name v\<close> is
  \<open>type(v).__name__\<close>, \<open>as_text v\<close> is the string when \<open>isinstance(v, str)\<close>, and
  \<open>no_attribute v a\<close> is the text of the \<open>AttributeError\<close> that reading the missing
  attribute \<open>a\<close> of \<open>v\<close> raises.
\<close>

datatype pyfloat = Finite rat | PosInf | NegInf | NaN

datatype pyval =
    PNone
  | PBool bool
  | PInt int
  | PFloat pyfloat
  | PStr string
  | PList "pyval list"
  | PDict "(string \<times> pyval) list"

fun py_truthy :: "pyval \<Rightarrow> bool" where
  "py_truthy PNone = False"
| "py_truthy (PBool b) = b"
| "py_truthy (PInt i) = (i \<noteq> 0)"
| "py_truthy (PFloat f) = (f \<noteq> Finite 0)"
| "py_truthy (PStr s) = (s \<noteq> [])"
| "py_truthy (PList xs) = (xs \<noteq> [])"
| "py_truthy (PDict kvs) = (kvs \<noteq> [])"

fun type_name :: "pyval \<Rightarrow> string" where
  "type_name PNone = ''NoneType''"
| "type_name (PBool b) = ''bool''"
| "type_name (PInt i) = ''int''"
| "type_name (PFloat f) = ''float''"
| "type_name (PStr s) = ''str''"
| "type_name (PList xs) = ''list''"
| "type_name (PDict kvs) = ''dict''"

fun as_text :: "pyval \<Rightarrow> string option" where
  "as_text (PStr s) = Some s"
| "as_text PNone = None"
| "as_text (PBool b) = None"
| "as_text (PInt i) = None"
| "as_text (PFloat f) = None"
| "as_text (PList xs) = None"
| "as_text (PDict kvs) = None"

definition no_attribute :: "pyval \<Rightarrow> string \<Rightarrow> string" where
  "no_attribute v a =
     [chr 39] @ type_name v @ [chr 39] @ '' object has no attribute '' @ [chr 39] @ a @ [chr 39]"

subsection \<open>The standard library\<close>

text \<open>
  The parts of the Python standard library and of the host that the code calls and that
  are not code of this repository, as parameters:
  \<^item> \<open>sha256_digest\<close>, \<open>sha256_hexdigest\<close>: \<open>hashlib.sha256(b).digest()\<close> and
    \<open>.hexdigest()\<close>;
  \<^item> \<open>hmac_sha256_hexdigest key msg\<close>: \<open>hmac.new(key, msg, hashlib.sha256).hexdigest()\<close>;
  \<^item> \<open>re_search pattern ignorecase text\<close>: whether the compiled pattern matches
    somewhere in the text;
  \<^item> \<open>urlparse url\<close>: the \<open>netloc\<close> and \<open>path\<close> of \<open>urllib.parse.urlparse(url)\<close>, or
    the text of the exception it raises;
  \<^item> \<open>path_resolve p\<close>: the parts of \<open>Path(p).resolve()\<close> (\<open>/\<close> first), or the text of
    the exception it raises;
  \<^item> \<open>findall_error v\<close>: the text of the \<open>TypeError\<close> that \<open>pattern.findall(v)\<close> raises
    for a value \<open>v\<close> that is not a string;
  \<^item> \<open>path_error v\<close>: the text of the \<open>TypeError\<close> that \<open>Path(v)\<close> raises for a value
    \<open>v\<close> that is not a string.
\<close>

record pylib =
  sha256_digest :: "string \<Rightarrow> string"
  sha256_hexdigest :: "string \<Rightarrow> string"
  hmac_sha256_hexdigest :: "string \<Rightarrow> string \<Rightarrow> string"
  re_search :: "string \<Rightarrow> bool \<Rightarrow> string \<Rightarrow> bool"
  urlparse :: "string \<Rightarrow> string + (string \<times> string)"
  path_resolve :: "string \<Rightarrow> string + string list"
  findall_error :: "pyval \<Rightarrow> string"
  path_error :: "pyval \<Rightarrow> string"

section \<open>Security gates (ora/security/gates.py)\<close>

text \<open>
  The pattern tables keep the source's regular expressions as text; \<open>BS\<close> is the
  backslash and \<open>DQ\<close> the double quote. The gates' \<open>threat_count\<close> counters are written
  and never read, and are left out.
\<close>

definition BS :: string where
  "BS = [chr 92]"

definition DQ :: string where
  "DQ = [chr 34]"

definition INJECTION_PATTERNS :: "string list" where
  "INJECTION_PATTERNS =
    [''ignore.*previous.*instructions'',
     ''disregard.*above'',
     ''forget.*everything'',
     ''new.*instructions'',
     ''system'' @ BS @ ''s*prompt'',
     ''reveal.*prompt'',
     ''show.*instructions'',
     ''you.*are.*now.*'',
     ''pretend.*you.*are'',
     ''act.*as.*if'',
     ''imagine.*you.*are'',
     ''roleplay.*as'',
     ''base64.*decode'',
     ''rot13'',
     ''unicode.*escape'',
     ''hex.*decode'',
     ''<'' @ BS @ ''s*system'' @ BS @ ''s*>'',
     ''<'' @ BS @ ''s*assistant'' @ BS @ ''s*>'',
     ''<'' @ BS @ ''s*user'' @ BS @ ''s*>'',
     BS @ ''[INST'' @ BS @ '']'',
     BS @ ''[/INST'' @ BS @ '']'',
     ''bypass.*gate'',
     ''disable.*security'',
     ''override.*protection'',
     ''skip.*approval'']"

definition DANGEROUS_COMMANDS :: "string list" where
  "DANGEROUS_COMMANDS =
    [''rm'' @ BS @ ''s+-rf'' @ BS @ ''s+/'',
     ''mkfs'',
     ''dd'' @ BS @ ''s+.*of=/dev'',
     '':'' @ BS @ ''('' @ BS @ '')'' @ BS @ ''{.*'' @ BS @ ''}'',
     ''chmod'' @ BS @ ''s+-R'' @ BS @ ''s+777'',
     ''chown'' @ BS @ ''s+-R'' @ BS @ ''s+root'',
     ''curl.*'' @ BS @ ''|'' @ BS @ ''s*bash'',
     ''wget.*'' @ BS @ ''|'' @ BS @ ''s*sh'',
     '':(){ :|:& };:'']"

definition SAFE_COMMANDS :: "string list" where
  "SAFE_COMMANDS =
    [''ls'', ''cat'', ''grep'', ''find'', ''echo'', ''pwd'', ''cd'',
     ''mkdir'', ''touch'', ''cp'', ''mv'', ''chmod'', ''chown'',
     ''git'', ''python'', ''pip'', ''npm'', ''node'',
     ''docker'', ''kubectl'', ''terraform'',
     ''curl'', ''wget'', ''ssh'', ''scp'']"

definition CREDENTIAL_PATTERNS :: "string list" where
  "CREDENTIAL_PATTERNS =
    [''api[_-]?key'' @ BS @ ''s*[:=]'' @ BS @ ''s*['' @ [chr 39] @ BS @ DQ @ '']?[a-zA-Z0-9_'' @ BS
        @ ''-]{20,}['' @ [chr 39] @ BS @ DQ @ '']?'',
     ''password'' @ BS @ ''s*[:=]'' @ BS @ ''s*['' @ [chr 39] @ BS @ DQ @ '']?[^'' @ BS
        @ ''s]{6,}['' @ [chr 39] @ BS @ DQ @ '']?'',
     ''secret'' @ BS @ ''s*[:=]'' @ BS @ ''s*['' @ [chr 39] @ BS @ DQ @ '']?[a-zA-Z0-9_'' @ BS
        @ ''-]{10,}['' @ [chr 39] @ BS @ DQ @ '']?'',
     ''token'' @ BS @ ''s*[:=]'' @ BS @ ''s*['' @ [chr 39] @ BS @ DQ @ '']?[a-zA-Z0-9_'' @ BS
        @ ''-]{20,}['' @ [chr 39] @ BS @ DQ @ '']?'',
     ''bearer'' @ BS @ ''s+[a-zA-Z0-9_'' @ BS @ ''-]{20,}'',
     ''sk-[a-zA-Z0-9_'' @ BS @ ''-]{20,}'',
     ''gh[pousr]_[a-zA-Z0-9_'' @ BS @ ''-]{20,}'']"

definition DEFAULT_ALLOWLIST :: "string list" where
  "DEFAULT_ALLOWLIST =
    [''api.openai.com'', ''api.anthropic.com'', ''api.deepseek.com'', ''api.moonshot.cn'',
     ''api.nvidia.com'', ''localhost'', ''127.0.0.1'', ''0.0.0.0'']"

text \<open>
  The coordinator's configuration: the constructor's \<open>config\<close> entries after their
  defaults, the allow-list (defaults and the custom entries) and the resolved workspace
  root, as the parts of the path.
\<close>

record SecurityGateCoordinator =
  strict_mode :: bool
  shell_mode :: string
  sandbox_enabled :: bool
  allowlist :: "string list"
  workspace_root :: "string list"

text \<open>
  \<open>SecurityGateCoordinator(workspace_root, config)\<close>: an absent \<open>config\<close> key is
  \<open>None\<close>; the constructor raises what \<open>Path(workspace_root).resolve()\<close> raises.
\<close>

definition SecurityGateCoordinator_init ::
  "pylib \<Rightarrow> string \<Rightarrow> bool option \<Rightarrow> string option \<Rightarrow> bool option \<Rightarrow> string list option
     \<Rightarrow> string + SecurityGateCoordinator" where
  "SecurityGateCoordinator_init lib root_dir cfg_strict_mode cfg_shell_mode cfg_sandbox_enabled
       cfg_network_allowlist =
     (case path_resolve lib root_dir of
        Inl e \<Rightarrow> Inl e
      | Inr parts \<Rightarrow>
          Inr \<lparr>strict_mode = (case cfg_strict_mode of None \<Rightarrow> True | Some b \<Rightarrow> b),
               shell_mode = (case cfg_shell_mode of None \<Rightarrow> ''allowlist'' | Some m \<Rightarrow> m),
               sandbox_enabled = (case cfg_sandbox_enabled of None \<Rightarrow> True | Some b \<Rightarrow> b),
               allowlist = DEFAULT_ALLOWLIST @ (case cfg_network_allowlist of None \<Rightarrow> [] | Some l \<Rightarrow> l),
               workspace_root = parts\<rparr>)"

text \<open>
  What \<open>run_all_gates\<close> can raise, with the text of the exception: \<open>split()[0]\<close> on an
  empty list, \<open>findall\<close> on a value that is not a string, and \<open>strip\<close> read from a
  value that has no such attribute.
\<close>

datatype gate_error = IndexError | TypeError string | AttributeError string

text \<open>\<open>PromptInjectionScanner.scan\<close>: a falsy text is safe; otherwise the patterns
  that match, in table order.\<close>

definition prompt_scan :: "pylib \<Rightarrow> pyval \<Rightarrow> gate_error + (bool \<times> string list)" where
  "prompt_scan lib text =
     (if \<not> py_truthy text then Inr (True, [])
      else (case as_text text of
              None \<Rightarrow> Inl (TypeError (findall_error lib text))
            | Some t \<Rightarrow>
                (let detected = filter (\<lambda>p. re_search lib p True t) INJECTION_PATTERNS
                 in if detected \<noteq> [] then Inr (False, detected) else Inr (True, []))))"

text \<open>\<open>ShellCommandSanitizer.validate\<close>: a falsy or blank command is safe; otherwise
  the first dangerous pattern that matches decides; then, in allow-list mode, the first
  word of the command.\<close>

definition shell_validate ::
  "pylib \<Rightarrow> string \<Rightarrow> pyval \<Rightarrow> gate_error + (bool \<times> string option)" where
  "shell_validate lib mode command =
     (if \<not> py_truthy command then Inr (True, None)
      else (case as_text command of
              None \<Rightarrow> Inl (AttributeError (no_attribute command ''strip''))
            | Some c \<Rightarrow>
                (if py_strip c = [] then Inr (True, None)
                 else (case filter (\<lambda>p. re_search lib p False c) DANGEROUS_COMMANDS of
                         p # _ \<Rightarrow> Inr (False, Some (''Blocked: Dangerous pattern detected: '' @ p))
                       | [] \<Rightarrow>
                           (if mode = ''allowlist''
                            then (case py_split_ws (py_strip c) of
                                    [] \<Rightarrow> Inl IndexError
                                  | base_cmd # _ \<Rightarrow>
                                      (if base_cmd \<notin> set SAFE_COMMANDS
                                       then Inr (False, Some (''Blocked: Command '' @ [chr 39]
                                               @ base_cmd @ [chr 39] @ '' not in allowlist''))
                                       else Inr (True, None)))
                            else Inr (True, None))))))"

definition high_risk_ops :: "string list" where
  "high_risk_ops =
     [''terminal.execute'', ''filesystem.delete'', ''docker.run'', ''code_analyzer.execute'']"

text \<open>\<open>SandboxEnforcer.requires_sandbox\<close>: \<open>operation in high_risk_ops\<close> compares the
  value with each string of the list, so a value that is not a string is in none of them;
  \<open>tool\<close> is not read.\<close>

definition requires_sandbox :: "bool \<Rightarrow> pyval \<Rightarrow> pyval \<Rightarrow> bool \<times> string option" where
  "requires_sandbox enabled operation tool =
     (if \<not> enabled then (False, None)
      else (case as_text operation of
              None \<Rightarrow> (False, None)
            | Some opn \<Rightarrow>
                (if opn \<in> set high_risk_ops
                 then (True, Some (''Operation '' @ [chr 39] @ opn @ [chr 39] @ '' requires sandbox''))
                 else (False, None))))"

definition credential_scan :: "pylib \<Rightarrow> string \<Rightarrow> bool \<times> string option" where
  "credential_scan lib text =
     (if text = [] then (True, None)
      else (case filter (\<lambda>p. re_search lib p True text) CREDENTIAL_PATTERNS of
              p # _ \<Rightarrow> (False, Some (''Potential credential exposure detected: '' @ p))
            | [] \<Rightarrow> (True, None)))"

text \<open>
  \<open>NetworkAllowlist.is_allowed\<close>; every exception raised in it is caught there and gives
  a failed check. On a value that is not a string, \<open>urlparse\<close> takes a falsy one for the
  empty bytes, whose domain \<open>b''\<close> is in no allow-list, and reads \<open>decode\<close> from a truthy
  one, which raises \<open>AttributeError\<close>.
\<close>

definition is_allowed :: "pylib \<Rightarrow> string list \<Rightarrow> pyval \<Rightarrow> bool \<times> string option" where
  "is_allowed lib allowed url =
     (case as_text url of
        Some u \<Rightarrow>
          (case urlparse lib u of
             Inl e \<Rightarrow> (False, Some (''Invalid URL: '' @ e))
           | Inr (netloc, path) \<Rightarrow>
               (case (if netloc \<noteq> [] then py_split netloc '':'' else [path]) of
                  [] \<Rightarrow> (False, Some ''Invalid URL: list index out of range'')
                | domain # _ \<Rightarrow>
                    (if domain \<in> set allowed then (True, None)
                     else (False, Some (''Domain '' @ [chr 39] @ domain @ [chr 39]
                             @ '' not in network allowlist'')))))
      | None \<Rightarrow>
          (if py_truthy url
           then (False, Some (''Invalid URL: '' @ no_attribute url ''decode''))
           else (False, Some (''Domain '' @ [chr 39] @ ''b'' @ [chr 39, chr 39] @ [chr 39]
                   @ '' not in network allowlist''))))"

text \<open>
  A resolved path is the list of its parts, \<open>/\<close> first. \<open>parents\<close> are its proper,
  non-empty prefixes; \<open>path_str\<close> is \<open>str(path)\<close>.
\<close>

definition parents :: "string list \<Rightarrow> string list list" where
  "parents p = map (\<lambda>k. take k p) (rev [1..<length p])"

definition path_str :: "string list \<Rightarrow> string" where
  "path_str p = (case p of [] \<Rightarrow> ''.'' | r # rest \<Rightarrow> (if r = ''/'' then r @ join ''/'' rest else join ''/'' (r # rest)))"

text \<open>\<open>WorkspaceBoundaryEnforcer.is_within_workspace\<close>; every exception raised in it,
  the \<open>TypeError\<close> of \<open>Path\<close> on a value that is not a string among them, is caught there
  and gives a failed check.\<close>

definition is_within_workspace :: "pylib \<Rightarrow> string list \<Rightarrow> pyval \<Rightarrow> bool \<times> string option" where
  "is_within_workspace lib ws_root file_path =
     (case as_text file_path of
        None \<Rightarrow> (False, Some (''Invalid path: '' @ path_error lib file_path))
      | Some fp \<Rightarrow>
          (case path_resolve lib fp of
             Inl e \<Rightarrow> (False, Some (''Invalid path: '' @ e))
           | Inr target \<Rightarrow>
               (if ws_root \<in> set (parents target) \<or> target = ws_root then (True, None)
                else (False, Some (''Path '' @ [chr 39] @ fp @ [chr 39] @ '' is outside workspace ''
                        @ [chr 39] @ path_str ws_root @ [chr 39])))))"

record SecurityCheckResult =
  passed :: bool
  gate_name :: string
  threat_detected :: bool
  reason :: "string option"
  sanitized_value :: "string option"

text \<open>\<open>repr\<close> of a pattern of \<open>INJECTION_PATTERNS\<close> (none has a quote or a control
  character): single quotes around it, each backslash doubled; and of a list of them.\<close>

definition py_repr :: "string \<Rightarrow> string" where
  "py_repr s = [chr 39] @ concat (map (\<lambda>c. if c = chr 92 then [c, c] else [c]) s) @ [chr 39]"

definition py_repr_list :: "string list \<Rightarrow> string" where
  "py_repr_list xs = ''['' @ join '', '' (map py_repr xs) @ '']''"

definition check_prompt ::
  "pylib \<Rightarrow> SecurityGateCoordinator \<Rightarrow> pyval \<Rightarrow> gate_error + SecurityCheckResult" where
  "check_prompt lib g text =
     (case prompt_scan lib text of
        Inl e \<Rightarrow> Inl e
      | Inr (is_safe, patterns) \<Rightarrow>
          Inr \<lparr>passed = is_safe, gate_name = ''prompt_injection'', threat_detected = \<not> is_safe,
               reason = (if is_safe then None
                         else Some (''Detected patterns: '' @ py_repr_list patterns)),
               sanitized_value = None\<rparr>)"

definition check_shell_command ::
  "pylib \<Rightarrow> SecurityGateCoordinator \<Rightarrow> pyval \<Rightarrow> gate_error + SecurityCheckResult" where
  "check_shell_command lib g command =
     (case shell_validate lib (shell_mode g) command of
        Inl e \<Rightarrow> Inl e
      | Inr (is_safe, why) \<Rightarrow>
          Inr \<lparr>passed = is_safe, gate_name = ''shell_sanitizer'', threat_detected = \<not> is_safe,
               reason = why, sanitized_value = None\<rparr>)"

definition check_sandbox_requirement ::
  "SecurityGateCoordinator \<Rightarrow> pyval \<Rightarrow> pyval \<Rightarrow> SecurityCheckResult" where
  "check_sandbox_requirement g operation tool =
     (let (requires, why) = requires_sandbox (sandbox_enabled g) operation tool
      in \<lparr>passed = \<not> requires, gate_name = ''sandbox_enforcer'', threat_detected = requires,
          reason = why, sanitized_value = None\<rparr>)"

definition check_credential_exposure :: "pylib \<Rightarrow> SecurityGateCoordinator \<Rightarrow> string \<Rightarrow> SecurityCheckResult" where
  "check_credential_exposure lib g text =
     (let (is_safe, why) = credential_scan lib text
      in \<lparr>passed = is_safe, gate_name = ''credential_guard'', threat_detected = \<not> is_safe,
          reason = why, sanitized_value = None\<rparr>)"

definition check_network_access :: "pylib \<Rightarrow> SecurityGateCoordinator \<Rightarrow> pyval \<Rightarrow> SecurityCheckResult" where
  "check_network_access lib g url =
     (let (ok, why) = is_allowed lib (allowlist g) url
      in \<lparr>passed = ok, gate_name = ''network_allowlist'', threat_detected = \<not> ok,
          reason = why, sanitized_value = None\<rparr>)"

definition check_workspace_boundary :: "pylib \<Rightarrow> SecurityGateCoordinator \<Rightarrow> pyval \<Rightarrow> SecurityCheckResult" where
  "check_workspace_boundary lib g file_path =
     (let (is_safe, why) = is_within_workspace lib (workspace_root g) file_path
      in \<lparr>passed = is_safe, gate_name = ''workspace_boundary'', threat_detected = \<not> is_safe,
          reason = why, sanitized_value = None\<rparr>)"

subsection \<open>run_all_gates\<close>

text \<open>
  A Python \<open>dict\<close> is an association list in insertion order with distinct keys:
  \<open>dict_get\<close> is \<open>d.get(k)\<close>, \<open>dict_set\<close> is \<open>d[k] = v\<close> (an existing key keeps its
  place). A request is a dictionary of Python values with string keys.
\<close>

definition dict_get :: "('k \<times> 'v) list \<Rightarrow> 'k \<Rightarrow> 'v option" where
  "dict_get d k = map_of d k"

fun dict_set :: "('k \<times> 'v) list \<Rightarrow> 'k \<Rightarrow> 'v \<Rightarrow> ('k \<times> 'v) list" where
  "dict_set [] k v = [(k, v)]"
| "dict_set (p # ps) k v = (if fst p = k then (k, v) # ps else p # dict_set ps k v)"

text \<open>
  The dictionary \<open>run_all_gates\<close> returns: its keys \<open>overall_passed\<close>,
  \<open>threat_detected\<close> (here \<open>overall_threat_detected\<close>) and \<open>gate_results\<close>, whose
  values have the keys \<open>passed\<close>, \<open>reason\<close> and \<open>threat_detected\<close>.
\<close>

record GateSummary =
  summary_passed :: bool
  summary_reason :: "string option"
  summary_threat_detected :: bool

record GatesReport =
  overall_passed :: bool
  overall_threat_detected :: bool
  gate_results :: "(string \<times> GateSummary) list"

type_synonym gate_dict = "(string \<times> SecurityCheckResult) list"

text \<open>The six stages build \<open>results\<close>, each under its key of the request. The prompt
  and the shell stage raise what their check raises; the other checks always return.\<close>

definition gate_prompt ::
  "pylib \<Rightarrow> SecurityGateCoordinator \<Rightarrow> (string \<times> pyval) list \<Rightarrow> gate_dict \<Rightarrow> gate_error + gate_dict" where
  "gate_prompt lib g request results =
     (case dict_get request ''prompt'' of
        None \<Rightarrow> Inr results
      | Some text \<Rightarrow>
          (case check_prompt lib g text of
             Inl e \<Rightarrow> Inl e
           | Inr r \<Rightarrow> Inr (dict_set results ''prompt'' r)))"

definition gate_shell ::
  "pylib \<Rightarrow> SecurityGateCoordinator \<Rightarrow> (string \<times> pyval) list \<Rightarrow> gate_dict \<Rightarrow> gate_error + gate_dict" where
  "gate_shell lib g request results =
     (case dict_get request ''shell_command'' of
        None \<Rightarrow> Inr results
      | Some command \<Rightarrow>
          (case check_shell_command lib g command of
             Inl e \<Rightarrow> Inl e
           | Inr r \<Rightarrow> Inr (dict_set results ''shell'' r)))"

definition gate_sandbox ::
  "SecurityGateCoordinator \<Rightarrow> (string \<times> pyval) list \<Rightarrow> gate_dict \<Rightarrow> gate_dict" where
  "gate_sandbox g request results =
     (case dict_get request ''operation'' of
        None \<Rightarrow> results
      | Some operation \<Rightarrow>
          dict_set results ''sandbox''
            (check_sandbox_requirement g operation
               (case dict_get request ''tool'' of None \<Rightarrow> PStr ''unknown'' | Some tool \<Rightarrow> tool)))"

text \<open>The loop over \<open>request.items()\<close>: the values that are strings are scanned, and
  only a failed credential check is recorded.\<close>

definition credential_step ::
  "pylib \<Rightarrow> SecurityGateCoordinator \<Rightarrow> gate_dict \<Rightarrow> string \<times> pyval \<Rightarrow> gate_dict" where
  "credential_step lib g results item =
     (case as_text (snd item) of
        Some v \<Rightarrow>
          (let cred_check = check_credential_exposure lib g v
           in if \<not> passed cred_check
              then dict_set results (''credential_'' @ fst item) cred_check
              else results)
      | None \<Rightarrow> results)"

definition gate_credentials ::
  "pylib \<Rightarrow> SecurityGateCoordinator \<Rightarrow> (string \<times> pyval) list \<Rightarrow> gate_dict \<Rightarrow> gate_dict" where
  "gate_credentials lib g request results = foldl (credential_step lib g) results request"

definition gate_network ::
  "pylib \<Rightarrow> SecurityGateCoordinator \<Rightarrow> (string \<times> pyval) list \<Rightarrow> gate_dict \<Rightarrow> gate_dict" where
  "gate_network lib g request results =
     (case dict_get request ''url'' of
        None \<Rightarrow> results
      | Some url \<Rightarrow> dict_set results ''network'' (check_network_access lib g url))"

definition gate_workspace ::
  "pylib \<Rightarrow> SecurityGateCoordinator \<Rightarrow> (string \<times> pyval) list \<Rightarrow> gate_dict \<Rightarrow> gate_dict" where
  "gate_workspace lib g request results =
     (case dict_get request ''file_path'' of
        None \<Rightarrow> results
      | Some file_path \<Rightarrow>
          dict_set results ''workspace'' (check_workspace_boundary lib g file_path))"

text \<open>The checks in the source's order.\<close>

definition collect_results ::
  "pylib \<Rightarrow> SecurityGateCoordinator \<Rightarrow> (string \<times> pyval) list \<Rightarrow> gate_error + gate_dict" where
  "collect_results lib g request =
     (case gate_prompt lib g request [] of
        Inl e \<Rightarrow> Inl e
      | Inr r1 \<Rightarrow>
     (case gate_shell lib g request r1 of
        Inl e \<Rightarrow> Inl e
      | Inr r2 \<Rightarrow>
          Inr (gate_workspace lib g request
                (gate_network lib g request
                  (gate_credentials lib g request
                    (gate_sandbox g request r2))))))"

definition summarise :: "gate_dict \<Rightarrow> GatesReport" where
  "summarise results =
     \<lparr>overall_passed = list_all (\<lambda>r. passed r) (map snd results),
      overall_threat_detected = list_ex (\<lambda>r. threat_detected r) (map snd results),
      gate_results =
        map (\<lambda>kr. (fst kr, \<lparr>summary_passed = passed (snd kr), summary_reason = reason (snd kr),
                             summary_threat_detected = threat_detected (snd kr)\<rparr>)) results\<rparr>"

definition run_all_gates ::
  "pylib \<Rightarrow> SecurityGateCoordinator \<Rightarrow> (string \<times> pyval) list \<Rightarrow> gate_error + GatesReport" where
  "run_all_gates lib g request =
     (case collect_results lib g request of
        Inl e \<Rightarrow> Inl e
      | Inr results \<Rightarrow> Inr (summarise results))"

subsection \<open>Auxiliary notions for the proofs about the gates\<close>

text \<open>
  A check result whose threat flag is the negation of its pass flag, and a results
  dictionary of such results. A value the prompt scanner and the shell sanitizer answer:
  none, a string, or a falsy value; \<open>returns_on\<close> holds of the requests whose \<open>prompt\<close>
  and \<open>shell_command\<close> are such values. A coordinator with the default configuration,
  used as an example.
\<close>

definition flagged_iff_failed :: "SecurityCheckResult \<Rightarrow> bool" where
  "flagged_iff_failed r \<longleftrightarrow> threat_detected r = (\<not> passed r)"

definition all_flagged_iff_failed :: "gate_dict \<Rightarrow> bool" where
  "all_flagged_iff_failed results \<longleftrightarrow> list_all flagged_iff_failed (map snd results)"

definition text_or_falsy :: "pyval option \<Rightarrow> bool" where
  "text_or_falsy v =
     (case v of None \<Rightarrow> True | Some x \<Rightarrow> (as_text x \<noteq> None \<or> \<not> py_truthy x))"

definition returns_on :: "(string \<times> pyval) list \<Rightarrow> bool" where
  "returns_on request \<longleftrightarrow>
     text_or_falsy (dict_get request ''prompt'')
     \<and> text_or_falsy (dict_get request ''shell_command'')"

definition example_gates :: SecurityGateCoordinator where
  "example_gates =
     \<lparr>strict_mode = True, shell_mode = ''allowlist'', sandbox_enabled = True,
      allowlist = DEFAULT_ALLOWLIST, workspace_root = [''/'', ''workspace'']\<rparr>"

section \<open>Constitution (ora/core/constitution.py)\<close>

record ConstitutionalConstraint =
  article :: string
  title :: string
  constraint_description :: string
  authority_levels :: "AuthorityLevel list"
  enforcement :: string

record Operation =
  operation_id :: string
  agent_id :: string
  skill_name :: string
  parameters :: json
  authority_level :: AuthorityLevel
  description :: string

datatype violation =
  ConstitutionalViolation string
| PrimeDirectiveViolation string
| ProhibitedOperationViolation string

definition VERSION :: string where
  "VERSION = ''2.0.0''"

definition PRIME_DIRECTIVE :: string where
  "PRIME_DIRECTIVE =
     ''No agent shall cause harm to humans, human systems, or human data through action or inaction.''"

definition AUTHORITY_HIERARCHY :: "string list" where
  "AUTHORITY_HIERARCHY =
    [''L0: CONSTITUTIONAL AUTHORITY (This Document)'',
     ''L1: HUMAN OPERATORS (Ultimate Authority)'',
     ''L2: KERNEL AUTHORITY (System Governance)'',
     ''L3: AGENT HIERARCHY (Planner -> Researcher -> Builder -> Tester -> Integrator)'',
     ''L4: SKILL EXECUTION (Sandboxed Operations)'',
     ''L5: EXTERNAL SYSTEMS (APIs, File System, Network)'']"

text \<open>
  The \<open>L3\<close> entry of \<open>AUTHORITY_HIERARCHY\<close> has arrows outside ASCII in the source;
  they are written \<open>->\<close> here. The text only enters the immutability hash.
\<close>

definition PROHIBITED_self_replication :: string where
  "PROHIBITED_self_replication = ''Self-replication without explicit authorization gate approval''"

definition PROHIBITED_modifying_kernel :: string where
  "PROHIBITED_modifying_kernel = ''Modifying agent'' @ [chr 39] @ ''s own code or the kernel''"

record Constitution =
  version :: string
  prime_directive :: string
  authority_hierarchy :: "string list"
  constraints :: "ConstitutionalConstraint list"
  immutable_hash :: string

definition load_default_constraints :: "ConstitutionalConstraint list" where
  "load_default_constraints =
    [\<lparr>article = ''ARTICLE_I_SECTION_1'', title = ''Prime Directive'',
      constraint_description = PRIME_DIRECTIVE,
      authority_levels = all_levels, enforcement = ''strict''\<rparr>,
     \<lparr>article = ''ARTICLE_II_SECTION_3'', title = ''Prohibited Actions'',
      constraint_description = ''Agents are absolutely forbidden from prohibited operations'',
      authority_levels = all_levels, enforcement = ''strict''\<rparr>,
     \<lparr>article = ''ARTICLE_IV_SECTION_1'', title = ''Triple-Lock Verification'',
      constraint_description =
        ''All A4+ operations must pass Vericoding, GraphRAG, and RLM verification'',
      authority_levels = [FILE_WRITE, SYSTEM_EXEC], enforcement = ''strict''\<rparr>,
     \<lparr>article = ''ARTICLE_V_SECTION_1'', title = ''Post-Quantum Cryptography'',
      constraint_description =
        ''All cryptographic operations must use NIST-approved PQC algorithms'',
      authority_levels = all_levels, enforcement = ''strict''\<rparr>,
     \<lparr>article = ''ARTICLE_VI_SECTION_1'', title = ''Immutable Audit Trail'',
      constraint_description =
        ''All agent actions must be logged with cryptographic signatures'',
      authority_levels = all_levels, enforcement = ''strict''\<rparr>]"

definition constraint_json :: "ConstitutionalConstraint \<Rightarrow> json" where
  "constraint_json c =
     JObj [(''article'', JStr (article c)),
           (''title'', JStr (title c)),
           (''description'', JStr (constraint_description c)),
           (''authority_levels'', JArr (map (\<lambda>a. JInt (level_value a)) (authority_levels c)))]"

definition compute_hash :: "pylib \<Rightarrow> Constitution \<Rightarrow> string" where
  "compute_hash lib c =
     sha256_hexdigest lib (py_encode (json_dumps True
       (JObj [(''version'', JStr (version c)),
              (''prime_directive'', JStr (prime_directive c)),
              (''authority_hierarchy'', JArr (map JStr (authority_hierarchy c))),
              (''constraints'', JArr (map constraint_json (constraints c)))])))"

text \<open>\<open>Constitution(constraints)\<close>: \<open>None\<close> and the empty list load the defaults.\<close>

definition Constitution_init :: "pylib \<Rightarrow> ConstitutionalConstraint list option \<Rightarrow> Constitution" where
  "Constitution_init lib cs =
     (let c0 = \<lparr>version = VERSION, prime_directive = PRIME_DIRECTIVE,
                authority_hierarchy = AUTHORITY_HIERARCHY,
                constraints = (case cs of None \<Rightarrow> load_default_constraints
                               | Some l \<Rightarrow> (if l = [] then load_default_constraints else l)),
                immutable_hash = []\<rparr>
      in c0\<lparr>immutable_hash := compute_hash lib c0\<rparr>)"

definition verify_immutability :: "pylib \<Rightarrow> Constitution \<Rightarrow> bool" where
  "verify_immutability lib c \<longleftrightarrow> compute_hash lib c = immutable_hash c"

definition harmful_keywords :: "string list" where
  "harmful_keywords =
     [''destruct'', ''delete'', ''remove'', ''format'', ''erase'', ''wipe'', ''malware'',
      ''virus'', ''attack'', ''exploit'', ''bypass'']"

definition violates_prime_directive :: "Operation \<Rightarrow> bool" where
  "violates_prime_directive operation =
     (let operation_text = skill_name operation @ '' '' @ description operation @ '' ''
                             @ json_dumps False (parameters operation);
          operation_text_lower = py_lower operation_text
      in list_ex (\<lambda>keyword. py_in keyword operation_text_lower) harmful_keywords)"

text \<open>\<open>_enforce_constraint\<close>: \<open>None\<close> when it returns, the violation when it raises. The
  branch for \<open>ARTICLE_IV_SECTION_1\<close> only writes to the log.\<close>

definition enforce_constraint :: "ConstitutionalConstraint \<Rightarrow> Operation \<Rightarrow> violation option" where
  "enforce_constraint constraint operation =
     (if enforcement constraint = ''advisory'' then None
      else if enforcement constraint = ''logging'' then None
      else if article constraint = ''ARTICLE_I_SECTION_1'' \<and> violates_prime_directive operation
      then Some (PrimeDirectiveViolation
             (''Operation '' @ operation_id operation @ '' violates Prime Directive: ''
                @ constraint_description constraint))
      else None)"

definition check_prohibited_operations :: "Operation \<Rightarrow> violation option" where
  "check_prohibited_operations operation =
     (if py_in ''self_replicate'' (py_lower (skill_name operation))
      then Some (ProhibitedOperationViolation
             (''Operation '' @ operation_id operation @ '' is prohibited: ''
                @ PROHIBITED_self_replication))
      else if py_in ''kernel'' (py_lower (skill_name operation))
              \<and> py_in ''modify'' (py_lower (skill_name operation))
      then Some (ProhibitedOperationViolation
             (''Operation '' @ operation_id operation @ '' is prohibited: ''
                @ PROHIBITED_modifying_kernel))
      else None)"

text \<open>The loop of \<open>validate_operation\<close> over the constraints: the first violation
  raised ends it.\<close>

fun enforce_all :: "ConstitutionalConstraint list \<Rightarrow> Operation \<Rightarrow> violation option" where
  "enforce_all [] operation = None"
| "enforce_all (constraint # rest) operation =
     (if authority_level operation \<notin> set (authority_levels constraint)
      then enforce_all rest operation
      else (case enforce_constraint constraint operation of
              Some v \<Rightarrow> Some v
            | None \<Rightarrow> enforce_all rest operation))"

definition validate_operation :: "pylib \<Rightarrow> Constitution \<Rightarrow> Operation \<Rightarrow> violation + bool" where
  "validate_operation lib c operation =
     (if \<not> verify_immutability lib c
      then Inl (ConstitutionalViolation
             ''Constitution integrity check failed - possible modification'')
      else (case enforce_all (constraints c) operation of
              Some v \<Rightarrow> Inl v
            | None \<Rightarrow>
                (case check_prohibited_operations operation of
                   Some v \<Rightarrow> Inl v
                 | None \<Rightarrow> Inr True)))"

section \<open>Audit chain (ora/audit/immutable_log.py)\<close>

text \<open>
  A row of the table \<open>audit_log\<close>; the table is the list of its rows by ascending
  \<open>id\<close>. The state of an \<open>ImmutableAuditLog\<close> is the table and the chain head
  \<open>_last_signature\<close>.
\<close>

record AuditEntry =
  timestamp :: string
  entry_level :: string
  action :: string
  tool :: string
  entry_parameters :: string
  authority :: string
  result :: string
  signature :: string
  session_id :: string
  user_id :: string

record ImmutableAuditLog =
  audit_table :: "AuditEntry list"
  last_signature :: string

text \<open>
  What a call reads from the host: the machine id (\<open>/etc/machine-id\<close>, or
  \<open>str(os.uname())\<close>), the hour \<open>int(time.time() / 3600)\<close>, the clock
  \<open>datetime.now().isoformat()\<close>, and whether the insert into the table succeeds. One call
  of \<open>verify_chain\<close> is taken to read the same machine id and hour for all its rows.
\<close>

record audit_env =
  machine_id :: string
  epoch_hour :: int
  now_iso :: string
  insert_ok :: bool

definition GENESIS :: string where
  "GENESIS = replicate 64 (CHR ''0'')"

text \<open>\<open>__init__\<close>: the genesis hash, then the signature of the last row if there is one.\<close>

definition ImmutableAuditLog_init :: "AuditEntry list \<Rightarrow> ImmutableAuditLog" where
  "ImmutableAuditLog_init table =
     \<lparr>audit_table = table,
      last_signature = (case rev table of [] \<Rightarrow> GENESIS | row # _ \<Rightarrow> signature row)\<rparr>"

definition derive_key :: "pylib \<Rightarrow> audit_env \<Rightarrow> ImmutableAuditLog \<Rightarrow> string" where
  "derive_key lib env self =
     sha256_digest lib (py_encode
       (machine_id env @ '':'' @ last_signature self @ '':'' @ py_str_int (epoch_hour env)))"

definition sign_entry :: "pylib \<Rightarrow> audit_env \<Rightarrow> ImmutableAuditLog \<Rightarrow> json \<Rightarrow> string" where
  "sign_entry lib env self entry =
     (let key = derive_key lib env self;
          data = json_dumps True entry
      in hmac_sha256_hexdigest lib key (py_encode data))"

text \<open>The dictionary \<open>entry_data\<close> that is signed, as both \<open>log\<close> and \<open>verify_chain\<close>
  build it from the nine fields.\<close>

definition entry_data :: "AuditEntry \<Rightarrow> json" where
  "entry_data e =
     JObj [(''timestamp'', JStr (timestamp e)),
           (''level'', JStr (entry_level e)),
           (''action'', JStr (action e)),
           (''tool'', JStr (tool e)),
           (''parameters'', JStr (entry_parameters e)),
           (''authority'', JStr (authority e)),
           (''result'', JStr (result e)),
           (''session_id'', JStr (session_id e)),
           (''user_id'', JStr (user_id e))]"

text \<open>
  \<open>log\<close> (here \<open>log_entry\<close>): the signature it returns, or \<open>None\<close> when the insert
  fails, and the new state. \<open>parameters\<close>, \<open>session_id\<close> and \<open>user_id\<close> may be
  \<open>None\<close>; \<open>x or default\<close> also replaces an empty value.
\<close>

definition log_entry ::
  "pylib \<Rightarrow> audit_env \<Rightarrow> ImmutableAuditLog \<Rightarrow> string \<Rightarrow> string \<Rightarrow> string
     \<Rightarrow> (string \<times> json) list option \<Rightarrow> string \<Rightarrow> string \<Rightarrow> string option \<Rightarrow> string option
     \<Rightarrow> string option \<times> ImmutableAuditLog" where
  "log_entry lib env self a_level a_action a_tool a_parameters a_authority a_result
       a_session_id a_user_id =
     (let e = \<lparr>timestamp = now_iso env,
               entry_level = a_level,
               action = a_action,
               tool = a_tool,
               entry_parameters =
                 json_dumps False (JObj (case a_parameters of None \<Rightarrow> [] | Some d \<Rightarrow> d)),
               authority = a_authority,
               result = a_result,
               signature = [],
               session_id = (case a_session_id of None \<Rightarrow> ''default''
                             | Some x \<Rightarrow> (if x = [] then ''default'' else x)),
               user_id = (case a_user_id of None \<Rightarrow> ''anonymous''
                          | Some x \<Rightarrow> (if x = [] then ''anonymous'' else x))\<rparr>;
          sig = sign_entry lib env self (entry_data e)
      in if insert_ok env
         then (Some sig,
               self\<lparr>audit_table := audit_table self @ [e\<lparr>signature := sig\<rparr>],
                    last_signature := sig\<rparr>)
         else (None, self))"

record VerifyResults =
  total_checked :: nat
  valid :: nat
  invalid :: nat
  errors :: "string list"

text \<open>The body of the loop of \<open>verify_chain\<close> for one row.\<close>

definition verify_row ::
  "pylib \<Rightarrow> audit_env \<Rightarrow> ImmutableAuditLog \<Rightarrow> VerifyResults \<Rightarrow> AuditEntry \<Rightarrow> VerifyResults" where
  "verify_row lib env self results row =
     (let expected_sig = sign_entry lib env self (entry_data row)
      in if expected_sig = signature row
         then results\<lparr>valid := valid results + 1\<rparr>
         else results\<lparr>invalid := invalid results + 1,
                      errors := errors results
                        @ [''Entry at '' @ timestamp row @ '' has invalid signature'']\<rparr>)"

text \<open>\<open>ORDER BY id DESC LIMIT ?\<close>: the newest rows first; a negative limit is no limit
  in SQLite.\<close>

definition select_rows :: "AuditEntry list \<Rightarrow> int \<Rightarrow> AuditEntry list" where
  "select_rows table limit = (if limit < 0 then rev table else take (nat limit) (rev table))"

definition verify_chain :: "pylib \<Rightarrow> audit_env \<Rightarrow> ImmutableAuditLog \<Rightarrow> int \<Rightarrow> VerifyResults" where
  "verify_chain lib env self limit =
     (let rows = select_rows (audit_table self) limit
      in foldl (verify_row lib env self)
           \<lparr>total_checked = length rows, valid = 0, invalid = 0, errors = []\<rparr>
           (rev rows))"

section \<open>Incident tracker (ora/audit/incidents.py)\<close>

record Incident =
  inc_id :: string
  inc_timestamp :: string
  incident_type :: string
  inc_description :: string
  inc_agent :: "string option"
  inc_operation :: "string option"
  inc_details :: "(string \<times> json) list"
  inc_status :: string

record IncidentResolution =
  root_cause :: string
  prevention_gate :: string
  verified_at :: string
  verified_by :: string

record IncidentEntry =
  incident :: Incident
  resolution :: "IncidentResolution option"
  closed_at :: "string option"

text \<open>
  The tracker: \<open>_session_counts\<close>, the flag, the registered callbacks (by name) with the
  calls made to them, the in-memory \<open>_log\<close> and the lines of the JSONL file. A write to
  the file that fails is caught by the code; the file is then taken as unchanged.
\<close>

record IncidentTracker =
  session_counts :: "(string \<times> int) list"
  two_strike_triggered :: bool
  escalation_callbacks :: "string list"
  escalation_calls :: "(string \<times> string \<times> string) list"
  incident_log :: "IncidentEntry list"
  jsonl_file :: "IncidentEntry list"

text \<open>\<open>IncidentTracker(path)\<close>: \<open>_load\<close> reads the entries of an existing file.\<close>

definition IncidentTracker_init :: "IncidentEntry list \<Rightarrow> IncidentTracker" where
  "IncidentTracker_init file =
     \<lparr>session_counts = [], two_strike_triggered = False, escalation_callbacks = [],
      escalation_calls = [], incident_log = file, jsonl_file = file\<rparr>"

definition on_escalation :: "IncidentTracker \<Rightarrow> string \<Rightarrow> IncidentTracker" where
  "on_escalation self callback =
     self\<lparr>escalation_callbacks := escalation_callbacks self @ [callback]\<rparr>"

text \<open>What \<open>record\<close> reads from the host: the fresh id (date and random suffix), the
  clock, and whether the append to the file succeeds.\<close>

record record_env =
  fresh_id :: string
  record_now :: string
  append_ok :: bool

definition record_incident ::
  "record_env \<Rightarrow> IncidentTracker \<Rightarrow> string \<Rightarrow> string \<Rightarrow> string option \<Rightarrow> string option
     \<Rightarrow> (string \<times> json) list option \<Rightarrow> string \<times> IncidentTracker" where
  "record_incident env self ty descr ag oper det =
     (let inc_id' = fresh_id env;
          entry = \<lparr>incident =
                     \<lparr>inc_id = inc_id', inc_timestamp = record_now env, incident_type = ty,
                      inc_description = descr, inc_agent = ag, inc_operation = oper,
                      inc_details = (case det of None \<Rightarrow> [] | Some d \<Rightarrow> d),
                      inc_status = ''open''\<rparr>,
                   resolution = None, closed_at = None\<rparr>;
          s1 = self\<lparr>incident_log := incident_log self @ [entry],
                    jsonl_file := (if append_ok env then jsonl_file self @ [entry]
                                   else jsonl_file self)\<rparr>;
          n = (case dict_get (session_counts s1) ty of None \<Rightarrow> 0 | Some c \<Rightarrow> c) + 1;
          s2 = s1\<lparr>session_counts := dict_set (session_counts s1) ty n\<rparr>
      in if n \<ge> 2 \<and> \<not> two_strike_triggered s2
         then (inc_id',
               s2\<lparr>two_strike_triggered := True,
                  escalation_calls := escalation_calls s2
                    @ map (\<lambda>cb. (cb, ty, inc_id')) (escalation_callbacks s2)\<rparr>)
         else (inc_id', s2))"

record resolve_env =
  verified_now :: string
  closed_now :: string
  rewrite_ok :: bool

text \<open>The first entry of the log with the given id, replaced by \<open>f\<close> of it.\<close>

fun update_first :: "(IncidentEntry \<Rightarrow> bool) \<Rightarrow> (IncidentEntry \<Rightarrow> IncidentEntry)
    \<Rightarrow> IncidentEntry list \<Rightarrow> IncidentEntry list" where
  "update_first P f [] = []"
| "update_first P f (e # es) = (if P e then f e # es else e # update_first P f es)"

definition resolve ::
  "resolve_env \<Rightarrow> IncidentTracker \<Rightarrow> string \<Rightarrow> string \<Rightarrow> string \<Rightarrow> string
     \<Rightarrow> bool \<times> IncidentTracker" where
  "resolve env self incident_id cause gate verifier =
     (case find (\<lambda>e. inc_id (incident e) = incident_id) (incident_log self) of
        None \<Rightarrow> (False, self)
      | Some entry \<Rightarrow>
          (let log' = update_first (\<lambda>e. inc_id (incident e) = incident_id)
                        (\<lambda>e. e\<lparr>resolution := Some \<lparr>root_cause = cause, prevention_gate = gate,
                                                   verified_at = verified_now env,
                                                   verified_by = verifier\<rparr>,
                               incident := (incident e)\<lparr>inc_status := ''resolved''\<rparr>,
                               closed_at := Some (closed_now env)\<rparr>)
                        (incident_log self);
               s1 = self\<lparr>incident_log := log',
                         jsonl_file := (if rewrite_ok env then log' else jsonl_file self)\<rparr>;
               ty = incident_type (incident entry);
               open_of_type = filter (\<lambda>e. incident_type (incident e) = ty
                                          \<and> inc_status (incident e) \<noteq> ''resolved'') log'
           in if open_of_type = []
              then (let s2 = s1\<lparr>session_counts := dict_set (session_counts s1) ty 0\<rparr>
                    in if two_strike_triggered s2
                       then (let still_triggered =
                                   list_ex (\<lambda>v. v \<ge> 2) (map snd (session_counts s2))
                             in if \<not> still_triggered
                                then (True, s2\<lparr>two_strike_triggered := False\<rparr>)
                                else (True, s2))
                       else (True, s2))
              else (True, s1)))"

text \<open>A call of \<open>resolve\<close> with its arguments and what it reads from the host, and a
  sequence of such calls, one after the other.\<close>

record resolve_call =
  call_env :: resolve_env
  call_id :: string
  call_cause :: string
  call_gate :: string
  call_verifier :: string

definition resolve_all :: "IncidentTracker \<Rightarrow> resolve_call list \<Rightarrow> IncidentTracker" where
  "resolve_all self calls =
     foldl (\<lambda>s c. snd (resolve (call_env c) s (call_id c) (call_cause c) (call_gate c)
                          (call_verifier c))) self calls"

definition open_ids_of_type :: "IncidentTracker \<Rightarrow> string \<Rightarrow> string list" where
  "open_ids_of_type self ty =
     map (\<lambda>e. inc_id (incident e))
       (filter (\<lambda>e. incident_type (incident e) = ty \<and> inc_status (incident e) \<noteq> ''resolved'')
          (incident_log self))"

subsection \<open>Auxiliary notions for the proofs about the tracker\<close>

text \<open>An entry that is open and of a given type; the update \<open>resolve\<close> makes to the
  entry it finds; and a small session used as an example: incidents recorded one after the
  other in a fresh tracker, and calls of \<open>resolve\<close>.\<close>

definition is_open_of :: "string \<Rightarrow> IncidentEntry \<Rightarrow> bool" where
  "is_open_of ty e \<longleftrightarrow> incident_type (incident e) = ty \<and> inc_status (incident e) \<noteq> ''resolved''"

definition mark_resolved :: "resolve_env \<Rightarrow> string \<Rightarrow> string \<Rightarrow> string \<Rightarrow> IncidentEntry \<Rightarrow> IncidentEntry" where
  "mark_resolved env cause gate verifier e =
      e\<lparr>resolution := Some \<lparr>root_cause = cause, prevention_gate = gate,
                                                   verified_at = verified_now env,
                                                   verified_by = verifier\<rparr>,
                               incident := (incident e)\<lparr>inc_status := ''resolved''\<rparr>,
                               closed_at := Some (closed_now env)\<rparr>"

definition example_record_env :: "string \<Rightarrow> record_env" where
  "example_record_env i = \<lparr>fresh_id = i, record_now = ''2026-01-01T00:00:00+00:00'', append_ok = True\<rparr>"

definition example_resolve_call :: "string \<Rightarrow> resolve_call" where
  "example_resolve_call i =
     \<lparr>call_env = \<lparr>verified_now = ''2026-01-01T01:00:00+00:00'',
                  closed_now = ''2026-01-01T01:00:00+00:00'', rewrite_ok = True\<rparr>,
      call_id = i, call_cause = ''timeout'', call_gate = ''retry limit'',
      call_verifier = ''operator''\<rparr>"

definition example_session :: "(string \<times> string) list \<Rightarrow> IncidentTracker" where
  "example_session recs =
     foldl (\<lambda>s r. snd (record_incident (example_record_env (fst r)) s (snd r) ''failed'' None None None))
       (IncidentTracker_init []) recs"

section \<open>Governance kernel (ora/core/kernel.py)\<close>

record Alert =
  severity :: string
  message :: string
  alert_timestamp :: string
  source :: string

text \<open>\<open>KernelResult\<close>; its field \<open>output\<close> is \<open>output_text\<close> here and its
  \<open>operation_id\<close> is \<open>result_operation_id\<close>.\<close>

record KernelResult =
  status :: string
  output_text :: string
  result_operation_id :: string
  authority_required :: AuthorityLevel
  requires_approval :: bool
  approval_id :: "string option"
  error :: "string option"

text \<open>
  The kernel: the constitution, the optional audit logger and security gates, the
  operation history, the four counters of \<open>_metrics\<close>, and the alerts handed to
  \<open>_broadcast_alert\<close>, in order.
\<close>

record OraKernel =
  constitution :: Constitution
  audit_logger :: "ImmutableAuditLog option"
  security_gates :: "SecurityGateCoordinator option"
  operation_history :: "(string \<times> Operation) list"
  operations_executed :: int
  operations_failed :: int
  operations_rejected :: int
  operations_blocked :: int
  alerts :: "Alert list"

text \<open>\<open>OraKernel(constitution, audit_logger, authority_kernel, security_gates)\<close>; the
  constructor raises \<open>ValueError\<close> when the constitution fails its own check.\<close>

definition OraKernel_init ::
  "pylib \<Rightarrow> Constitution \<Rightarrow> ImmutableAuditLog option \<Rightarrow> SecurityGateCoordinator option
     \<Rightarrow> string + OraKernel" where
  "OraKernel_init lib c logger gates =
     (if \<not> verify_immutability lib c then Inl ''Constitution immutability check failed''
      else Inr \<lparr>constitution = c, audit_logger = logger, security_gates = gates,
                operation_history = [], operations_executed = 0, operations_failed = 0,
                operations_rejected = 0, operations_blocked = 0, alerts = []\<rparr>)"

text \<open>
  What one call of \<open>process_command\<close> reads from outside: the random part of the
  operation id and of the approval id, the clock of the alerts, what the audit logger
  reads, and the reply of the external agent fleet (\<open>Inl\<close> the text of the exception the
  API call raised, \<open>Inr\<close> the output text built from its response).
\<close>

record kernel_env =
  op_uuid :: string
  apr_uuid :: string
  utcnow_iso :: string
  audit_reads :: audit_env
  fleet_reply :: "string + string"

definition parse_command :: "kernel_env \<Rightarrow> string \<Rightarrow> string \<Rightarrow> Operation" where
  "parse_command env command user =
     (let command_lower = py_lower command;
          (skill, lvl, params) =
            (if py_in ''search'' command_lower \<or> py_in ''web'' command_lower
                \<or> py_in ''find'' command_lower
             then (''web_search'', INFO_RETRIEVAL, [(''query'', JStr command)])
             else if py_in ''read'' command_lower \<or> py_in ''file'' command_lower
             then (''file_read'', FILE_READ,
                   [(''path'', JStr (if py_in ''file'' command_lower
                                     then py_strip (last (py_split command ''file''))
                                     else []))])
             else if py_in ''write'' command_lower \<or> py_in ''save'' command_lower
                     \<or> py_in ''create'' command_lower
             then (''file_write'', FILE_WRITE, [(''content'', JStr command)])
             else if py_in ''execute'' command_lower \<or> py_in ''run'' command_lower
                     \<or> py_in ''shell'' command_lower
             then (''shell_exec'', SYSTEM_EXEC, [(''command'', JStr command)])
             else if py_in ''calculate'' command_lower \<or> py_in ''compute'' command_lower
                     \<or> py_in ''math'' command_lower
             then (''math'', SAFE_COMPUTE, [(''expression'', JStr command)])
             else if py_in ''delete'' command_lower \<or> py_in ''remove'' command_lower
             then (''file_delete'', FILE_WRITE, [(''path'', JStr command)])
             else if py_in ''analyze'' command_lower \<or> py_in ''review'' command_lower
             then (''code_analyzer'', FILE_READ, [(''query'', JStr command)])
             else (''research'', INFO_RETRIEVAL, [(''query'', JStr command)]))
      in \<lparr>operation_id = ''op_'' @ op_uuid env,
          agent_id = user,
          skill_name = skill,
          parameters = JObj params,
          authority_level = lvl,
          description = command\<rparr>)"

record AgentResult =
  agent_status :: string
  agent_output :: string
  agent_error :: "string option"

definition agent_fleet_execute :: "kernel_env \<Rightarrow> Operation \<Rightarrow> AgentResult" where
  "agent_fleet_execute env operation =
     (case fleet_reply env of
        Inr out \<Rightarrow> \<lparr>agent_status = ''success'', agent_output = out, agent_error = None\<rparr>
      | Inl e \<Rightarrow> \<lparr>agent_status = ''error'', agent_output = ''Operation failed: '' @ e,
                   agent_error = Some e\<rparr>)"

definition broadcast_alert :: "OraKernel \<Rightarrow> Alert \<Rightarrow> OraKernel" where
  "broadcast_alert self alert = self\<lparr>alerts := alerts self @ [alert]\<rparr>"

text \<open>The handler \<open>except Exception as e\<close> at the end of \<open>process_command\<close>, with
  \<open>str(e)\<close>.\<close>

definition on_exception ::
  "kernel_env \<Rightarrow> OraKernel \<Rightarrow> string \<Rightarrow> string \<Rightarrow> KernelResult \<times> OraKernel" where
  "on_exception env self oid e =
     (\<lparr>status = ''error'', output_text = ''Error: '' @ e, result_operation_id = oid,
       authority_required = READ_ONLY, requires_approval = False, approval_id = None,
       error = Some e\<rparr>,
      broadcast_alert (self\<lparr>operations_failed := operations_failed self + 1\<rparr>)
        \<lparr>severity = ''error'', message = ''Operation failed: '' @ e,
         alert_timestamp = utcnow_iso env, source = ''kernel''\<rparr>)"

text \<open>The text of the exceptions that reach that handler from the gate step.\<close>

definition gate_error_text :: "gate_error \<Rightarrow> string" where
  "gate_error_text e =
     (case e of IndexError \<Rightarrow> ''list index out of range''
      | TypeError m \<Rightarrow> m
      | AttributeError m \<Rightarrow> m)"

definition dict_has_no_passed :: string where
  "dict_has_no_passed =
     [chr 39] @ ''dict'' @ [chr 39] @ '' object has no attribute '' @ [chr 39] @ ''passed'' @ [chr 39]"

text \<open>
  The steps of \<open>process_command\<close> after the security gates: the constitution, the audit
  entry, the approval requirement, the execution.
\<close>

definition after_gates ::
  "pylib \<Rightarrow> kernel_env \<Rightarrow> OraKernel \<Rightarrow> string \<Rightarrow> string \<Rightarrow> Operation
     \<Rightarrow> KernelResult \<times> OraKernel" where
  "after_gates lib env self command user operation =
     (case validate_operation lib (constitution self) operation of
        Inl (PrimeDirectiveViolation e) \<Rightarrow>
          (\<lparr>status = ''blocked'', output_text = ''Operation blocked: Violates Prime Directive'',
            result_operation_id = operation_id operation,
            authority_required = authority_level operation, requires_approval = False,
            approval_id = None, error = Some e\<rparr>,
           broadcast_alert (self\<lparr>operations_blocked := operations_blocked self + 1\<rparr>)
             \<lparr>severity = ''critical'', message = ''Prime Directive violation: '' @ e,
              alert_timestamp = utcnow_iso env, source = ''kernel''\<rparr>)
      | Inl (ProhibitedOperationViolation e) \<Rightarrow>
          (\<lparr>status = ''blocked'', output_text = ''Operation blocked: Prohibited by Constitution'',
            result_operation_id = operation_id operation,
            authority_required = authority_level operation, requires_approval = False,
            approval_id = None, error = Some e\<rparr>,
           broadcast_alert (self\<lparr>operations_blocked := operations_blocked self + 1\<rparr>)
             \<lparr>severity = ''critical'', message = ''Prohibited operation: '' @ e,
              alert_timestamp = utcnow_iso env, source = ''kernel''\<rparr>)
      | Inl (ConstitutionalViolation e) \<Rightarrow>
          (\<lparr>status = ''rejected'', output_text = ''Constitutional violation: '' @ e,
            result_operation_id = operation_id operation,
            authority_required = authority_level operation, requires_approval = False,
            approval_id = None, error = Some e\<rparr>,
           self\<lparr>operations_rejected := operations_rejected self + 1\<rparr>)
      | Inr _ \<Rightarrow>
          (let requirements = get_authority_requirements (authority_level operation);
               s1 = (case audit_logger self of
                       None \<Rightarrow> self
                     | Some logger \<Rightarrow>
                         self\<lparr>audit_logger := Some (snd
                           (log_entry lib (audit_reads env) logger ''OPERATION''
                              (skill_name operation)
                              (case py_split (skill_name operation) ''_'' of
                                 [] \<Rightarrow> [] | first # _ \<Rightarrow> first)
                              (Some [(''command'', JStr command), (''user'', JStr user)])
                              (level_str (authority_level operation))
                              ''pending'' (Some user) None))\<rparr>)
           in if approval_needed requirements
              then (\<lparr>status = ''pending_approval'',
                     output_text = ''Operation requires approval at ''
                                @ name_display (authority_level operation),
                     result_operation_id = operation_id operation,
                     authority_required = authority_level operation,
                     requires_approval = True,
                     approval_id = Some (''apr_'' @ apr_uuid env),
                     error = None\<rparr>, s1)
              else (let r = agent_fleet_execute env operation;
                        s2 = (if agent_status r = ''success''
                              then s1\<lparr>operations_executed := operations_executed s1 + 1\<rparr>
                              else s1\<lparr>operations_failed := operations_failed s1 + 1\<rparr>)
                    in (\<lparr>status = agent_status r, output_text = agent_output r,
                         result_operation_id = operation_id operation,
                         authority_required = authority_level operation,
                         requires_approval = False, approval_id = None,
                         error = agent_error r\<rparr>, s2))))"

text \<open>
  \<open>process_command\<close>. With security gates configured, \<open>run_all_gates\<close> returns a
  dictionary and the kernel reads its attribute \<open>passed\<close>: that raises
  \<open>AttributeError\<close>, which the last handler turns into the status \<open>error\<close>.
\<close>

definition process_command ::
  "pylib \<Rightarrow> kernel_env \<Rightarrow> OraKernel \<Rightarrow> string \<Rightarrow> string \<Rightarrow> KernelResult \<times> OraKernel" where
  "process_command lib env self command user =
     (let operation = parse_command env command user;
          oid = operation_id operation;
          s0 = self\<lparr>operation_history := dict_set (operation_history self) oid operation\<rparr>
      in case security_gates s0 of
           None \<Rightarrow> after_gates lib env s0 command user operation
         | Some gates \<Rightarrow>
             (case run_all_gates lib gates
                     [(''type'', PStr ''command''), (''content'', PStr command),
                      (''user'', PStr user)] of
                Inl e \<Rightarrow> on_exception env s0 oid (gate_error_text e)
              | Inr gate_result \<Rightarrow> on_exception env s0 oid dict_has_no_passed))"

subsection \<open>An example kernel\<close>

text \<open>What the host supplies in the examples below, a kernel as \<open>OraKernel\<close> builds it
  from the default constitution with an empty audit log and no security gates, and a
  command that \<open>parse_command\<close> reads as a \<open>file_write\<close>.\<close>

definition example_audit_env :: audit_env where
  "example_audit_env =
     \<lparr>machine_id = ''4c4c4544004a3510805ac7c04f4e4d32'', epoch_hour = 493000,
      now_iso = ''2026-03-29T16:00:00.000000'', insert_ok = True\<rparr>"

definition example_kernel_env :: kernel_env where
  "example_kernel_env =
     \<lparr>op_uuid = ''0123456789ab'', apr_uuid = ''ba9876543210'',
      utcnow_iso = ''2026-03-29T16:00:00.000000'', audit_reads = example_audit_env,
      fleet_reply = Inr ''done''\<rparr>"

definition example_kernel :: "pylib \<Rightarrow> OraKernel" where
  "example_kernel lib =
     \<lparr>constitution = Constitution_init lib None,
      audit_logger = Some (ImmutableAuditLog_init []),
      security_gates = None,
      operation_history = [], operations_executed = 0, operations_failed = 0,
      operations_rejected = 0, operations_blocked = 0, alerts = []\<rparr>"

definition example_write_command :: string where
  "example_write_command = ''write print(1) to /workspace/app.py''"

subsection \<open>Auxiliary notions for the proofs about the audit chain\<close>

text \<open>
  The test \<open>verify_chain\<close> makes on a row and the message it records for a row that
  fails it; the entry \<open>log\<close> builds before it signs it; a stand-in for the library, used
  only in examples, whose hash functions are plain text constructions; and the two
  rows that two calls of \<open>log\<close> append to an empty log.
\<close>

definition row_valid :: "pylib \<Rightarrow> audit_env \<Rightarrow> ImmutableAuditLog \<Rightarrow> AuditEntry \<Rightarrow> bool" where
  "row_valid lib env self row \<longleftrightarrow> sign_entry lib env self (entry_data row) = signature row"

definition invalid_message :: "AuditEntry \<Rightarrow> string" where
  "invalid_message row = ''Entry at '' @ timestamp row @ '' has invalid signature''"

definition stand_in_lib :: pylib where
  "stand_in_lib =
     \<lparr>sha256_digest = (\<lambda>b. b),
      sha256_hexdigest = (\<lambda>b. b),
      hmac_sha256_hexdigest = (\<lambda>key msg. CHR ''h'' # key @ msg),
      re_search = (\<lambda>pattern ignorecase text. False),
      urlparse = (\<lambda>url. Inr ([], url)),
      path_resolve = (\<lambda>p. Inr [''/'', p]),
      findall_error = (\<lambda>v. ''expected string or bytes-like object''),
      path_error = (\<lambda>v. ''expected str, bytes or os.PathLike object'')\<rparr>"

definition unsigned_entry ::
  "audit_env \<Rightarrow> string \<Rightarrow> string \<Rightarrow> string \<Rightarrow> (string \<times> json) list option \<Rightarrow> string \<Rightarrow> string
     \<Rightarrow> string option \<Rightarrow> string option \<Rightarrow> AuditEntry" where
  "unsigned_entry env lv ac tn pa au re si ui =
     \<lparr>timestamp = now_iso env, entry_level = lv, action = ac, tool = tn,
      entry_parameters = json_dumps False (JObj (case pa of None \<Rightarrow> [] | Some d \<Rightarrow> d)),
      authority = au, result = re, signature = [],
      session_id = (case si of None \<Rightarrow> ''default''
                    | Some x \<Rightarrow> (if x = [] then ''default'' else x)),
      user_id = (case ui of None \<Rightarrow> ''anonymous''
                 | Some x \<Rightarrow> (if x = [] then ''anonymous'' else x))\<rparr>"

definition example_first_row :: "pylib \<Rightarrow> AuditEntry" where
  "example_first_row lib =
     (let e = unsigned_entry example_audit_env ''INFO'' ''read'' ''fs'' None ''A0'' ''pending''
                None None
      in e\<lparr>signature := sign_entry lib example_audit_env (ImmutableAuditLog_init [])
                            (entry_data e)\<rparr>)"

definition example_second_row :: "pylib \<Rightarrow> AuditEntry" where
  "example_second_row lib =
     (let e = unsigned_entry example_audit_env ''INFO'' ''list'' ''fs'' None ''A0'' ''pending''
                None None
      in e\<lparr>signature := sign_entry lib example_audit_env
                            \<lparr>audit_table = [example_first_row lib],
                             last_signature = signature (example_first_row lib)\<rparr>
                            (entry_data e)\<rparr>)"

section \<open>Results about the authority model\<close>

text \<open>
  C9. For every pair of levels, \<open>is_operation_authorized operation_level agent_level\<close>
  is true exactly when the agent's level is at or above the operation's level in the order
  of the six levels: false whenever the required level is greater, true whenever it is
  less or equal. The order is the one of the enum values 0..5, which are pairwise
  distinct, so it is total on the six levels.
\<close>

theorem is_operation_authorized_iff_level_order:
  "(is_operation_authorized operation_level agent_level
      = (level_value operation_level \<le> level_value agent_level))
   \<and> ((level_value operation_level > level_value agent_level)
      = (\<not> is_operation_authorized operation_level agent_level))
   \<and> (is_operation_authorized operation_level agent_level
      = (agent_level \<in> set (dropWhile (\<lambda>l. l \<noteq> operation_level) all_levels)))
   \<and> map level_value all_levels = [0, 1, 2, 3, 4, 5]"
  by (cases operation_level; cases agent_level)
     (simp_all add: is_operation_authorized_def all_levels_def)

text \<open>
  C4, as the code has it. The quorum a level requires is the \<open>consensus_required\<close> entry
  of the requirements table: 0 below \<open>FILE_WRITE\<close>, 4 at \<open>FILE_WRITE\<close>, 7 at
  \<open>SYSTEM_EXEC\<close>. \<open>get_byzantine_quorum_size\<close> computes 0 below \<open>FILE_WRITE\<close> and
  \<open>3f + 1\<close> at \<open>FILE_WRITE\<close> and at \<open>SYSTEM_EXEC\<close> alike: 4 at both with the default
  \<open>f = 1\<close>, and 7 at both with \<open>f = 2\<close>.
\<close>

theorem quorum_sizes_by_level:
  "map (\<lambda>l. consensus_required (get_authority_requirements l)) all_levels = [0, 0, 0, 0, 4, 7]
   \<and> get_byzantine_quorum_size l f
       = (if l = FILE_WRITE \<or> l = SYSTEM_EXEC then 3 * f + 1 else 0)
   \<and> map (\<lambda>l. get_byzantine_quorum_size l default_fault_tolerance) all_levels
       = [0, 0, 0, 0, 4, 4]
   \<and> map (\<lambda>l. get_byzantine_quorum_size l 2) all_levels = [0, 0, 0, 0, 7, 7]"
  by (cases l) (simp_all add: get_byzantine_quorum_size_def all_levels_def
      default_fault_tolerance_def)

text \<open>
  C4 as stated fails for the computed size at \<open>SYSTEM_EXEC\<close>: a call with the default
  fault tolerance returns 4, not 7.
\<close>

theorem quorum_size_system_exec_default_counterexample:
  "get_byzantine_quorum_size SYSTEM_EXEC default_fault_tolerance = 4
   \<and> get_byzantine_quorum_size SYSTEM_EXEC default_fault_tolerance \<noteq> 7"
  by (simp add: get_byzantine_quorum_size_def default_fault_tolerance_def)

section \<open>Results about the incident tracker\<close>

lemma two_records_same_type:
  "two_strike_triggered (snd (record_incident e2
      (snd (record_incident e1 (IncidentTracker_init file) ty d1 a1 o1 x1)) ty d2 a2 o2 x2))"
  by (simp add: record_incident_def IncidentTracker_init_def Let_def dict_get_def)

lemma two_records_different_types:
  "ty1 \<noteq> ty2 \<Longrightarrow> \<not> two_strike_triggered (snd (record_incident e2
      (snd (record_incident e1 (IncidentTracker_init file) ty1 d1 a1 o1 x1)) ty2 d2 a2 o2 x2))"
  by (simp add: record_incident_def IncidentTracker_init_def Let_def dict_get_def)

lemma update_first_ids:
  "(\<And>e. inc_id (incident (f e)) = inc_id (incident e)) \<Longrightarrow>
   map (\<lambda>e. inc_id (incident e)) (update_first Q f es) = map (\<lambda>e. inc_id (incident e)) es"
  by (induction es) auto

lemma find_open:
  "distinct (map (\<lambda>e. inc_id (incident e)) es) \<Longrightarrow>
   i \<in> set (map (\<lambda>e. inc_id (incident e)) (filter P es)) \<Longrightarrow>
   \<exists>e. find (\<lambda>e. inc_id (incident e) = i) es = Some e \<and> P e \<and> inc_id (incident e) = i"
proof (induction es)
  case Nil
  then show ?case by simp
next
  case (Cons a es)
  show ?case
  proof (cases "inc_id (incident a) = i")
    case True
    with Cons.prems have "P a" by (auto split: if_splits)
    with True show ?thesis by simp
  next
    case False
    with Cons show ?thesis by (auto split: if_splits)
  qed
qed

lemma open_after_update:
  assumes "distinct (map (\<lambda>e. inc_id (incident e)) es)"
    and "\<And>e. inc_id (incident (f e)) = inc_id (incident e)"
    and "\<And>e. \<not> P (f e)"
  shows "filter P (update_first (\<lambda>e. inc_id (incident e) = i) f es)
         = filter (\<lambda>e. inc_id (incident e) \<noteq> i) (filter P es)"
  using assms(1)
proof (induction es)
  case Nil
  then show ?case by simp
next
  case (Cons a es)
  show ?case
  proof (cases "inc_id (incident a) = i")
    case True
    have "i \<notin> set (map (\<lambda>e. inc_id (incident e)) es)"
      using Cons.prems True by simp
    then have "\<forall>e \<in> set es. inc_id (incident e) \<noteq> i"
      by (auto simp: image_iff)
    then have "filter (\<lambda>e. inc_id (incident e) \<noteq> i) (filter P es) = filter P es"
      by (induction es) auto
    with True assms(3) show ?thesis by simp
  next
    case False
    with Cons show ?thesis by simp
  qed
qed


lemma dict_set_zero_values:
  "distinct (map fst d) \<Longrightarrow>
   list_ex (\<lambda>v. v \<ge> (2::int)) (map snd (dict_set d k 0))
     = list_ex (\<lambda>tv. fst tv \<noteq> k \<and> snd tv \<ge> 2) d"
proof (induction d)
  case Nil
  then show ?case by simp
next
  case (Cons p d)
  show ?case
  proof (cases "fst p = k")
    case True
    then have "k \<notin> set (map fst d)"
      using Cons.prems by simp
    then have "\<forall>tv \<in> set d. fst tv \<noteq> k"
      by (auto simp: image_iff)
    then have "list_ex (\<lambda>tv. fst tv \<noteq> k \<and> snd tv \<ge> 2) d = list_ex (\<lambda>v. v \<ge> 2) (map snd d)"
      by (auto simp: list_ex_iff)
    with True show ?thesis by simp
  next
    case False
    with Cons show ?thesis by simp
  qed
qed

lemma open_ids_alt:
  "open_ids_of_type s ty = map (\<lambda>e. inc_id (incident e)) (filter (is_open_of ty) (incident_log s))"
  by (simp add: open_ids_of_type_def is_open_of_def[abs_def])

lemma resolve_step:
  fixes env :: resolve_env and cause gate verifier :: string
  assumes d: "distinct (map (\<lambda>e. inc_id (incident e)) (incident_log s))"
    and i: "i \<in> set (open_ids_of_type s ty)"
  defines "s' \<equiv> snd (resolve env s i cause gate verifier)"
  shows "map (\<lambda>e. inc_id (incident e)) (incident_log s') = map (\<lambda>e. inc_id (incident e)) (incident_log s)"
    and "open_ids_of_type s' ty = filter (\<lambda>j. j \<noteq> i) (open_ids_of_type s ty)"
    and "open_ids_of_type s' ty \<noteq> [] \<Longrightarrow>
           two_strike_triggered s' = two_strike_triggered s \<and> session_counts s' = session_counts s"
    and "open_ids_of_type s' ty = [] \<Longrightarrow> two_strike_triggered s \<Longrightarrow>
           distinct (map fst (session_counts s)) \<Longrightarrow>
           two_strike_triggered s' = list_ex (\<lambda>tv. fst tv \<noteq> ty \<and> snd tv \<ge> 2) (session_counts s)"
proof -
  let ?Q = "\<lambda>e. inc_id (incident e) = i"
  let ?f = "mark_resolved env cause gate verifier"
  let ?log' = "update_first ?Q ?f (incident_log s)"
  from find_open[OF d, of i "is_open_of ty"] i
  obtain e where e: "find ?Q (incident_log s) = Some e" "is_open_of ty e"
    by (auto simp: open_ids_alt)
  have ty: "incident_type (incident e) = ty" using e(2) by (simp add: is_open_of_def)
  have fid: "\<And>x. inc_id (incident (?f x)) = inc_id (incident x)"
    by (simp add: mark_resolved_def)
  have fnot: "\<And>x. \<not> is_open_of ty (?f x)"
    by (simp add: mark_resolved_def is_open_of_def)
  have open': "filter (is_open_of ty) ?log'
       = filter (\<lambda>x. inc_id (incident x) \<noteq> i) (filter (is_open_of ty) (incident_log s))"
    by (rule open_after_update[where P = "is_open_of ty" and f = ?f, OF d fid fnot])
  have log': "incident_log s' = ?log'"
    using e(1) ty
    by (simp add: s'_def resolve_def Let_def mark_resolved_def[abs_def])
  show ids: "map (\<lambda>e. inc_id (incident e)) (incident_log s') = map (\<lambda>e. inc_id (incident e)) (incident_log s)"
    by (simp add: log' update_first_ids[OF fid])
  show o: "open_ids_of_type s' ty = filter (\<lambda>j. j \<noteq> i) (open_ids_of_type s ty)"
    by (simp add: open_ids_alt log' open' filter_map comp_def)
  have empty_iff: "(filter (\<lambda>x. incident_type (incident x) = ty \<and> inc_status (incident x) \<noteq> ''resolved'') ?log' = [])
      = (open_ids_of_type s' ty = [])"
    by (simp add: open_ids_of_type_def log')
  show "open_ids_of_type s' ty \<noteq> [] \<Longrightarrow>
           two_strike_triggered s' = two_strike_triggered s \<and> session_counts s' = session_counts s"
    using e(1) ty empty_iff
    by (simp add: s'_def resolve_def Let_def mark_resolved_def[abs_def])
  show "open_ids_of_type s' ty = [] \<Longrightarrow> two_strike_triggered s \<Longrightarrow>
           distinct (map fst (session_counts s)) \<Longrightarrow>
           two_strike_triggered s' = list_ex (\<lambda>tv. fst tv \<noteq> ty \<and> snd tv \<ge> 2) (session_counts s)"
    using e(1) ty empty_iff dict_set_zero_values[of "session_counts s" ty]
    by (simp add: s'_def resolve_def Let_def mark_resolved_def[abs_def])
qed

lemma resolve_all_clears:
  "distinct (map (\<lambda>e. inc_id (incident e)) (incident_log s)) \<Longrightarrow>
   distinct (map fst (session_counts s)) \<Longrightarrow>
   two_strike_triggered s \<Longrightarrow>
   calls \<noteq> [] \<Longrightarrow>
   distinct (map call_id calls) \<Longrightarrow>
   set (map call_id calls) = set (open_ids_of_type s ty) \<Longrightarrow>
   two_strike_triggered (resolve_all s calls)
     = list_ex (\<lambda>tv. fst tv \<noteq> ty \<and> snd tv \<ge> 2) (session_counts s)"
proof (induction calls arbitrary: s)
  case Nil
  then show ?case by simp
next
  case (Cons c calls)
  let ?s' = "snd (resolve (call_env c) s (call_id c) (call_cause c) (call_gate c) (call_verifier c))"
  have i: "call_id c \<in> set (open_ids_of_type s ty)"
    using Cons.prems(6) by auto
  note st = resolve_step[OF Cons.prems(1) i, of "call_env c" "call_cause c" "call_gate c" "call_verifier c"]
  have ra: "resolve_all s (c # calls) = resolve_all ?s' calls"
    by (simp add: resolve_all_def)
  have notin: "call_id c \<notin> set (map call_id calls)"
    using Cons.prems(5) by simp
  have "set (open_ids_of_type ?s' ty) = set (open_ids_of_type s ty) - {call_id c}"
    using st(2) by auto
  also have "\<dots> = set (map call_id calls)"
  proof -
    have "set (open_ids_of_type s ty) = insert (call_id c) (set (map call_id calls))"
      using Cons.prems(6) by simp
    with notin show ?thesis by blast
  qed
  finally have rest: "set (map call_id calls) = set (open_ids_of_type ?s' ty)"
    by simp
  show ?case
  proof (cases "calls = []")
    case True
    then have "open_ids_of_type ?s' ty = []" using rest by simp
    from st(4)[OF this Cons.prems(3) Cons.prems(2)] True show ?thesis
      by (simp add: resolve_all_def)
  next
    case False
    then have ne: "open_ids_of_type ?s' ty \<noteq> []" using rest by auto
    from st(3)[OF ne] have keep: "two_strike_triggered ?s'" "session_counts ?s' = session_counts s"
      using Cons.prems(3) by simp_all
    have "two_strike_triggered (resolve_all ?s' calls)
        = list_ex (\<lambda>tv. fst tv \<noteq> ty \<and> snd tv \<ge> 2) (session_counts ?s')"
      using Cons.prems(1,2,5) st(1) keep False rest
      by (intro Cons.IH) simp_all
    then show ?thesis by (simp add: ra keep)
  qed
qed

text \<open>
  C5. In a tracker just created (whatever its file held), two \<open>record\<close> calls with the
  same type set \<open>two_strike_triggered\<close>, and one call each for two different types leaves
  it false. After a trip (the flag is set), resolving every open incident of a type \<open>ty\<close>,
  in any order, clears the flag if and only if no other type has a session count of 2 or
  more. The ids of the log are distinct (they are random) and the counts have one entry per
  type (a dictionary).
\<close>

theorem two_strike_protocol:
  assumes "ty1 \<noteq> ty2"
    and "two_strike_triggered s"
    and "distinct (map (\<lambda>e. inc_id (incident e)) (incident_log s))"
    and "distinct (map fst (session_counts s))"
    and "calls \<noteq> []"
    and "distinct (map call_id calls)"
    and "set (map call_id calls) = set (open_ids_of_type s ty)"
  shows "two_strike_triggered (snd (record_incident e2
            (snd (record_incident e1 (IncidentTracker_init file) ty d1 a1 o1 x1)) ty d2 a2 o2 x2))
       \<and> \<not> two_strike_triggered (snd (record_incident e4
            (snd (record_incident e3 (IncidentTracker_init file) ty1 d3 a3 o3 x3)) ty2 d4 a4 o4 x4))
       \<and> (\<not> two_strike_triggered (resolve_all s calls))
           = (\<not> list_ex (\<lambda>tv. fst tv \<noteq> ty \<and> snd tv \<ge> 2) (session_counts s))"
  using two_records_same_type two_records_different_types[OF assms(1)]
    resolve_all_clears[OF assms(3) assms(4) assms(2) assms(5) assms(6) assms(7)]
  by simp

text \<open>The theorem at a session with two \<open>agent_error\<close> incidents, where resolving both
  clears the flag, and at one with two \<open>security_block\<close> incidents more, where it stays.\<close>

theorem two_strike_protocol_witness:
  "''agent_error'' \<noteq> ''security_block''
   \<and> two_strike_triggered (example_session [(''INC-1'', ''agent_error''), (''INC-2'', ''agent_error'')])
   \<and> open_ids_of_type (example_session [(''INC-1'', ''agent_error''), (''INC-2'', ''agent_error'')]) ''agent_error''
        = [''INC-1'', ''INC-2'']
   \<and> \<not> two_strike_triggered (resolve_all
        (example_session [(''INC-1'', ''agent_error''), (''INC-2'', ''agent_error'')])
        [example_resolve_call ''INC-2'', example_resolve_call ''INC-1''])
   \<and> two_strike_triggered (resolve_all
        (example_session [(''INC-1'', ''agent_error''), (''INC-2'', ''agent_error''),
                          (''INC-3'', ''security_block''), (''INC-4'', ''security_block'')])
        [example_resolve_call ''INC-1'', example_resolve_call ''INC-2''])"
proof -
  let ?s1 = "example_session [(''INC-1'', ''agent_error''), (''INC-2'', ''agent_error'')]"
  let ?s2 = "example_session [(''INC-1'', ''agent_error''), (''INC-2'', ''agent_error''),
                          (''INC-3'', ''security_block''), (''INC-4'', ''security_block'')]"
  let ?c1 = "[example_resolve_call ''INC-2'', example_resolve_call ''INC-1'']"
  let ?c2 = "[example_resolve_call ''INC-1'', example_resolve_call ''INC-2'']"
  note ev = example_session_def example_record_env_def record_incident_def
    IncidentTracker_init_def Let_def dict_get_def example_resolve_call_def open_ids_of_type_def
  have ne: "''agent_error'' \<noteq> ''security_block''" by simp
  have s1: "two_strike_triggered ?s1"
    "distinct (map (\<lambda>e. inc_id (incident e)) (incident_log ?s1))"
    "distinct (map fst (session_counts ?s1))"
    "?c1 \<noteq> []" "distinct (map call_id ?c1)"
    "set (map call_id ?c1) = set (open_ids_of_type ?s1 ''agent_error'')"
    "open_ids_of_type ?s1 ''agent_error'' = [''INC-1'', ''INC-2'']"
    "\<not> list_ex (\<lambda>tv. fst tv \<noteq> ''agent_error'' \<and> snd tv \<ge> 2) (session_counts ?s1)"
    by (simp_all add: ev insert_commute)
  have s2: "two_strike_triggered ?s2"
    "distinct (map (\<lambda>e. inc_id (incident e)) (incident_log ?s2))"
    "distinct (map fst (session_counts ?s2))"
    "?c2 \<noteq> []" "distinct (map call_id ?c2)"
    "set (map call_id ?c2) = set (open_ids_of_type ?s2 ''agent_error'')"
    "list_ex (\<lambda>tv. fst tv \<noteq> ''agent_error'' \<and> snd tv \<ge> 2) (session_counts ?s2)"
    by (simp_all add: ev)
  from two_strike_protocol[OF ne s1(1) s1(2) s1(3) s1(4) s1(5) s1(6)] s1(8)
  have r1: "\<not> two_strike_triggered (resolve_all ?s1 ?c1)" by simp
  from two_strike_protocol[OF ne s2(1) s2(2) s2(3) s2(4) s2(5) s2(6)] s2(7)
  have r2: "two_strike_triggered (resolve_all ?s2 ?c2)" by simp
  from ne s1(1) s1(7) r1 r2 show ?thesis by simp
qed

section \<open>Results about the security gates\<close>

lemma dict_set_values:
  "set (map snd (dict_set d k v)) \<subseteq> insert v (set (map snd d))"
  by (induction d) auto

lemma dict_set_keeps:
  "all_flagged_iff_failed results \<Longrightarrow> flagged_iff_failed r \<Longrightarrow>
   all_flagged_iff_failed (dict_set results k r)"
  by (induction results) (auto simp: all_flagged_iff_failed_def)

lemma check_prompt_flag:
  "check_prompt lib g v = Inr r \<Longrightarrow> flagged_iff_failed r"
  by (auto simp: check_prompt_def flagged_iff_failed_def split: sum.splits prod.splits)

lemma check_shell_flag:
  "check_shell_command lib g v = Inr r \<Longrightarrow> flagged_iff_failed r"
  by (auto simp: check_shell_command_def flagged_iff_failed_def split: sum.splits prod.splits)

lemma check_sandbox_flag: "flagged_iff_failed (check_sandbox_requirement g v w)"
  by (simp add: check_sandbox_requirement_def flagged_iff_failed_def split: prod.splits)

lemma check_credential_flag: "flagged_iff_failed (check_credential_exposure lib g s)"
  by (simp add: check_credential_exposure_def flagged_iff_failed_def split: prod.splits)

lemma check_network_flag: "flagged_iff_failed (check_network_access lib g v)"
  by (simp add: check_network_access_def flagged_iff_failed_def split: prod.splits)

lemma check_workspace_flag: "flagged_iff_failed (check_workspace_boundary lib g v)"
  by (simp add: check_workspace_boundary_def flagged_iff_failed_def split: prod.splits)

lemma gate_prompt_keeps:
  "all_flagged_iff_failed rs \<Longrightarrow> gate_prompt lib g request rs = Inr rs' \<Longrightarrow>
   all_flagged_iff_failed rs'"
  by (auto simp: gate_prompt_def dict_set_keeps check_prompt_flag
      split: option.splits sum.splits)

lemma gate_shell_keeps:
  "all_flagged_iff_failed rs \<Longrightarrow> gate_shell lib g request rs = Inr rs' \<Longrightarrow>
   all_flagged_iff_failed rs'"
  by (auto simp: gate_shell_def dict_set_keeps check_shell_flag
      split: option.splits sum.splits)

lemma gate_sandbox_keeps:
  "all_flagged_iff_failed rs \<Longrightarrow> all_flagged_iff_failed (gate_sandbox g request rs)"
  by (simp add: gate_sandbox_def dict_set_keeps check_sandbox_flag split: option.splits)

lemma credential_step_keeps:
  "all_flagged_iff_failed rs \<Longrightarrow> all_flagged_iff_failed (credential_step lib g rs item)"
  by (auto simp: credential_step_def Let_def dict_set_keeps check_credential_flag
      split: option.splits)

lemma gate_credentials_keeps:
  "all_flagged_iff_failed rs \<Longrightarrow> all_flagged_iff_failed (gate_credentials lib g request rs)"
  unfolding gate_credentials_def
  by (induction request arbitrary: rs) (simp_all add: credential_step_keeps)

lemma gate_network_keeps:
  "all_flagged_iff_failed rs \<Longrightarrow> all_flagged_iff_failed (gate_network lib g request rs)"
  by (simp add: gate_network_def dict_set_keeps check_network_flag split: option.splits)

lemma gate_workspace_keeps:
  "all_flagged_iff_failed rs \<Longrightarrow> all_flagged_iff_failed (gate_workspace lib g request rs)"
  by (simp add: gate_workspace_def dict_set_keeps check_workspace_flag split: option.splits)

lemma collect_results_flags:
  assumes a: "collect_results lib g request = Inr rs"
  shows "all_flagged_iff_failed rs"
proof -
  have e: "all_flagged_iff_failed []" by (simp add: all_flagged_iff_failed_def)
  from a obtain r1 where s1: "gate_prompt lib g request [] = Inr r1"
    by (auto simp: collect_results_def split: sum.splits)
  from a s1 obtain r2 where s2: "gate_shell lib g request r1 = Inr r2"
    by (auto simp: collect_results_def split: sum.splits)
  from a s1 s2 have rs: "rs = gate_workspace lib g request
                (gate_network lib g request
                  (gate_credentials lib g request
                    (gate_sandbox g request r2)))"
    by (simp add: collect_results_def)
  have "all_flagged_iff_failed r1" using e s1 by (rule gate_prompt_keeps)
  then have "all_flagged_iff_failed r2" using s2 by (rule gate_shell_keeps)
  then show ?thesis
    unfolding rs
    by (intro gate_workspace_keeps gate_network_keeps gate_credentials_keeps gate_sandbox_keeps)
qed

lemma summarise_flags:
  "overall_passed (summarise rs) = list_all summary_passed (map snd (gate_results (summarise rs)))"
  "overall_threat_detected (summarise rs)
     = list_ex summary_threat_detected (map snd (gate_results (summarise rs)))"
  by (simp_all add: summarise_def list_all_iff list_ex_iff)

lemma summarise_threat_iff_failed:
  "all_flagged_iff_failed rs \<Longrightarrow>
   overall_threat_detected (summarise rs) = (\<not> overall_passed (summarise rs))"
  by (auto simp: summarise_def all_flagged_iff_failed_def flagged_iff_failed_def
      list_all_iff list_ex_iff)

text \<open>
  When \<open>run_all_gates\<close> returns. The prompt scanner raises exactly on a truthy value that
  is not a string, and so does the shell sanitizer: the \<open>IndexError\<close> of \<open>split()[0]\<close>
  would need a stripped command that is not empty and has no word.
\<close>

lemma split_ws_acc_nonempty:
  "(\<exists>c \<in> set s. \<not> is_space c) \<or> cur \<noteq> [] \<Longrightarrow> split_ws_acc s cur \<noteq> []"
  by (induction s arbitrary: cur) auto

lemma py_strip_has_word:
  assumes "py_strip s \<noteq> []"
  shows "py_split_ws (py_strip s) \<noteq> []"
proof -
  let ?d = "dropWhile is_space (rev (dropWhile is_space s))"
  from assms have ne: "?d \<noteq> []" by (simp add: py_strip_def)
  then have "\<not> is_space (hd ?d)" by (rule hd_dropWhile)
  moreover have "hd ?d \<in> set (py_strip s)" using ne by (simp add: py_strip_def)
  ultimately show ?thesis
    unfolding py_split_ws_def by (intro split_ws_acc_nonempty) blast
qed

lemma prompt_scan_returns:
  "(\<exists>r. prompt_scan lib v = Inr r) = text_or_falsy (Some v)"
  by (auto simp: prompt_scan_def text_or_falsy_def Let_def split: option.splits)

lemma shell_validate_returns:
  "(\<exists>r. shell_validate lib mode v = Inr r) = text_or_falsy (Some v)"
proof (cases "as_text v")
  case None
  then show ?thesis by (auto simp: shell_validate_def text_or_falsy_def)
next
  case (Some c)
  have "\<exists>r. shell_validate lib mode v = Inr r"
    using Some py_strip_has_word[of c]
    by (auto simp: shell_validate_def split: list.splits)
  with Some show ?thesis by (simp add: text_or_falsy_def)
qed

lemma check_prompt_returns:
  "(\<exists>r. check_prompt lib g v = Inr r) = text_or_falsy (Some v)"
proof (cases "prompt_scan lib v")
  case (Inl e)
  with prompt_scan_returns[of lib v] show ?thesis by (simp add: check_prompt_def)
next
  case (Inr r)
  with prompt_scan_returns[of lib v] show ?thesis
    by (cases r) (auto simp: check_prompt_def)
qed

lemma check_shell_command_returns:
  "(\<exists>r. check_shell_command lib g v = Inr r) = text_or_falsy (Some v)"
proof (cases "shell_validate lib (shell_mode g) v")
  case (Inl e)
  with shell_validate_returns[of lib "shell_mode g" v] show ?thesis
    by (simp add: check_shell_command_def)
next
  case (Inr r)
  with shell_validate_returns[of lib "shell_mode g" v] show ?thesis
    by (cases r) (auto simp: check_shell_command_def)
qed

lemma gate_prompt_returns:
  "(\<exists>rs'. gate_prompt lib g request rs = Inr rs') = text_or_falsy (dict_get request ''prompt'')"
proof (cases "dict_get request ''prompt''")
  case None
  then show ?thesis by (simp add: gate_prompt_def text_or_falsy_def)
next
  case (Some v)
  with check_prompt_returns[of lib g v] show ?thesis
    by (cases "check_prompt lib g v") (auto simp: gate_prompt_def)
qed

lemma gate_shell_returns:
  "(\<exists>rs'. gate_shell lib g request rs = Inr rs')
     = text_or_falsy (dict_get request ''shell_command'')"
proof (cases "dict_get request ''shell_command''")
  case None
  then show ?thesis by (simp add: gate_shell_def text_or_falsy_def)
next
  case (Some v)
  with check_shell_command_returns[of lib g v] show ?thesis
    by (cases "check_shell_command lib g v") (auto simp: gate_shell_def)
qed

lemma collect_results_returns_iff:
  "(\<exists>rs. collect_results lib g request = Inr rs) = returns_on request"
proof (cases "gate_prompt lib g request []")
  case (Inl e)
  with gate_prompt_returns[of lib g request "[]"] show ?thesis
    by (simp add: collect_results_def returns_on_def)
next
  case (Inr r1)
  with gate_prompt_returns[of lib g request "[]"]
  have p: "text_or_falsy (dict_get request ''prompt'')" by auto
  show ?thesis
  proof (cases "gate_shell lib g request r1")
    case (Inl e)
    with gate_shell_returns[of lib g request r1] Inr show ?thesis
      by (simp add: collect_results_def returns_on_def)
  next
    case (Inr r2)
    with gate_shell_returns[of lib g request r1] \<open>gate_prompt lib g request [] = Inr r1\<close> p
    show ?thesis
      by (auto simp: collect_results_def returns_on_def)
  qed
qed

lemma collect_results_returns:
  "returns_on request \<Longrightarrow> \<exists>rs. collect_results lib g request = Inr rs"
  by (simp add: collect_results_returns_iff)

lemma run_all_gates_returns_iff:
  "(\<exists>r. run_all_gates lib g request = Inr r) = returns_on request"
proof -
  have "(\<exists>r. run_all_gates lib g request = Inr r) = (\<exists>rs. collect_results lib g request = Inr rs)"
    by (cases "collect_results lib g request") (simp_all add: run_all_gates_def)
  then show ?thesis by (simp add: collect_results_returns_iff)
qed

text \<open>The checks of the operation, the URL and the file path answer every value; on
  a value that is not a string the sandbox check passes and the other two fail.\<close>

lemma check_sandbox_not_text:
  "as_text v = None \<Longrightarrow> passed (check_sandbox_requirement g v w)"
  by (simp add: check_sandbox_requirement_def requires_sandbox_def)

lemma check_network_not_text:
  "as_text v = None \<Longrightarrow> \<not> passed (check_network_access lib g v)"
  by (simp add: check_network_access_def is_allowed_def)

lemma check_workspace_not_text:
  "as_text v = None \<Longrightarrow> \<not> passed (check_workspace_boundary lib g v)"
  by (simp add: check_workspace_boundary_def is_within_workspace_def)

text \<open>
  C6, as the code has it. \<open>run_all_gates\<close> returns exactly on the requests whose
  \<open>prompt\<close> and \<open>shell_command\<close>, when present, are strings or falsy values (on the
  others the prompt scanner or the shell sanitizer raises). Whenever it returns,
  \<open>overall_passed\<close> is the conjunction of the \<open>passed\<close> flags of the per-gate results and
  \<open>threat_detected\<close> the disjunction of their \<open>threat_detected\<close> flags. Every check sets
  \<open>threat_detected\<close> to the negation of \<open>passed\<close>, so the returned \<open>threat_detected\<close> is
  the negation of \<open>overall_passed\<close>.
\<close>

theorem run_all_gates_aggregation:
  "((\<exists>r. run_all_gates lib g request = Inr r) = returns_on request)
   \<and> (\<forall>r. run_all_gates lib g request = Inr r \<longrightarrow>
         overall_passed r = list_all summary_passed (map snd (gate_results r))
       \<and> overall_threat_detected r = list_ex summary_threat_detected (map snd (gate_results r))
       \<and> overall_threat_detected r = (\<not> overall_passed r))"
proof (intro conjI impI allI)
  show "(\<exists>r. run_all_gates lib g request = Inr r) = returns_on request"
    by (rule run_all_gates_returns_iff)
next
  fix r assume "run_all_gates lib g request = Inr r"
  then obtain rs where rs: "collect_results lib g request = Inr rs" and r: "r = summarise rs"
    by (auto simp: run_all_gates_def split: sum.splits)
  show "overall_passed r = list_all summary_passed (map snd (gate_results r))"
    by (simp add: r summarise_flags(1))
  show "overall_threat_detected r = list_ex summary_threat_detected (map snd (gate_results r))"
    by (simp add: r summarise_flags(2))
  show "overall_threat_detected r = (\<not> overall_passed r)"
    using collect_results_flags[OF rs] by (simp add: r summarise_threat_iff_failed)
qed

text \<open>The theorem at the request \<open>{"prompt": None, "operation": "terminal.execute",
  "tool": 5}\<close>, whatever the library: the prompt scanner passes the falsy prompt, the
  sandbox gate fails the operation and flags it.\<close>

theorem run_all_gates_aggregation_witness:
  "\<forall>lib.
     returns_on [(''prompt'', PNone), (''operation'', PStr ''terminal.execute''),
                 (''tool'', PInt 5)]
   \<and> (\<exists>r. run_all_gates lib example_gates
             [(''prompt'', PNone), (''operation'', PStr ''terminal.execute''),
              (''tool'', PInt 5)] = Inr r
          \<and> \<not> overall_passed r \<and> overall_threat_detected r
          \<and> overall_threat_detected r
               = list_ex summary_threat_detected (map snd (gate_results r)))"
proof
  fix lib
  let ?req = "[(''prompt'', PNone), (''operation'', PStr ''terminal.execute''),
               (''tool'', PInt 5)]"
  have sv: "returns_on ?req"
    by (simp add: returns_on_def text_or_falsy_def dict_get_def)
  note agg = run_all_gates_aggregation[of lib example_gates ?req]
  from agg sv obtain r where run: "run_all_gates lib example_gates ?req = Inr r" by blast
  have se: "sandbox_enabled example_gates" by (simp add: example_gates_def)
  have "\<not> overall_passed r"
  proof (cases "passed (check_credential_exposure lib example_gates ''terminal.execute'')")
    case True
    with run se show ?thesis
      by (auto simp: run_all_gates_def collect_results_def gate_prompt_def gate_shell_def
          gate_sandbox_def gate_network_def gate_workspace_def gate_credentials_def
          credential_step_def check_prompt_def prompt_scan_def
          check_sandbox_requirement_def requires_sandbox_def
          high_risk_ops_def dict_get_def summarise_def Let_def)
  next
    case False
    with run se show ?thesis
      by (auto simp: run_all_gates_def collect_results_def gate_prompt_def gate_shell_def
          gate_sandbox_def gate_network_def gate_workspace_def gate_credentials_def
          credential_step_def check_prompt_def prompt_scan_def
          check_sandbox_requirement_def requires_sandbox_def
          high_risk_ops_def dict_get_def summarise_def Let_def)
  qed
  with agg run sv
  show "returns_on ?req
   \<and> (\<exists>r. run_all_gates lib example_gates ?req = Inr r
          \<and> \<not> overall_passed r \<and> overall_threat_detected r
          \<and> overall_threat_detected r
               = list_ex summary_threat_detected (map snd (gate_results r)))"
    by auto
qed

text \<open>
  C6 as stated fails in its last part: no request at all gives a result with
  \<open>overall_passed\<close> and \<open>threat_detected\<close> both true.
\<close>

theorem run_all_gates_pass_with_threat_counterexample:
  "\<not> (\<exists>lib g request r. run_all_gates lib g request = Inr r
         \<and> overall_passed r \<and> overall_threat_detected r)"
proof
  assume "\<exists>lib g request r. run_all_gates lib g request = Inr r
         \<and> overall_passed r \<and> overall_threat_detected r"
  then obtain lib g request r where a: "run_all_gates lib g request = Inr r"
    and p: "overall_passed r" and t: "overall_threat_detected r" by blast
  from a obtain rs where rs: "collect_results lib g request = Inr rs" and r: "r = summarise rs"
    by (auto simp: run_all_gates_def split: sum.splits)
  from collect_results_flags[OF rs] have "overall_threat_detected r = (\<not> overall_passed r)"
    by (simp add: r summarise_threat_iff_failed)
  with p t show False by simp
qed

section \<open>Results about the constitution and the kernel\<close>

lemma verify_immutability_init: "verify_immutability lib (Constitution_init lib cs)"
  by (simp add: verify_immutability_def Constitution_init_def compute_hash_def Let_def)

lemma example_kernel_init:
  "OraKernel_init lib (Constitution_init lib None) (Some (ImmutableAuditLog_init [])) None
     = Inr (example_kernel lib)"
  by (simp add: OraKernel_init_def verify_immutability_init example_kernel_def)

lemma starts_with_append:
  assumes "starts_with a sub"
  shows "starts_with (a @ b) sub"
proof -
  from assms have t: "take (length sub) a = sub" by (simp add: starts_with_def)
  then have "length (take (length sub) a) = length sub" by simp
  then have "length sub \<le> length a" by simp
  with t show ?thesis by (simp add: starts_with_def)
qed

lemma py_in_empty: "py_in [] s"
  by (cases s) (simp_all add: starts_with_def)

lemma py_in_append_left: "py_in sub a \<Longrightarrow> py_in sub (a @ b)"
proof (induction a)
  case Nil
  then show ?case by (simp add: py_in_empty)
next
  case (Cons c a)
  then show ?case using starts_with_append[of "c # a" sub b] by auto
qed

lemma py_in_append_right: "py_in sub b \<Longrightarrow> py_in sub (a @ b)"
  by (induction a) auto

lemma py_lower_append: "py_lower (a @ b) = py_lower a @ py_lower b"
  by (simp add: py_lower_def)

lemma keyword_in_description_violates:
  assumes "keyword \<in> set harmful_keywords" and "py_in keyword (py_lower (description op))"
  shows "violates_prime_directive op"
proof -
  have "py_in keyword (py_lower (skill_name op @ '' '' @ description op @ '' ''
           @ json_dumps False (parameters op)))"
    unfolding py_lower_append
    by (intro py_in_append_right py_in_append_left assms(2))
  with assms(1) show ?thesis
    by (auto simp: violates_prime_directive_def Let_def list_ex_iff)
qed

lemma level_in_all_levels: "l \<in> set all_levels"
  by (cases l) (simp_all add: all_levels_def)

lemma default_constitution_raises_prime_directive:
  assumes "violates_prime_directive op"
  shows "validate_operation lib (Constitution_init lib None) op
           = Inl (PrimeDirectiveViolation
               (''Operation '' @ operation_id op @ '' violates Prime Directive: '' @ PRIME_DIRECTIVE))"
proof -
  have c: "constraints (Constitution_init lib None) = load_default_constraints"
    by (simp add: Constitution_init_def Let_def)
  have "enforce_all load_default_constraints op
          = Some (PrimeDirectiveViolation
               (''Operation '' @ operation_id op @ '' violates Prime Directive: '' @ PRIME_DIRECTIVE))"
    using assms level_in_all_levels[of "authority_level op"]
    by (simp add: load_default_constraints_def enforce_constraint_def)
  then show ?thesis
    by (simp add: validate_operation_def verify_immutability_init c)
qed

lemma description_parse_command: "description (parse_command env command user) = command"
  by (simp add: parse_command_def Let_def split: prod.splits)

lemma operation_id_parse_command:
  "operation_id (parse_command env command user) = ''op_'' @ op_uuid env"
  by (simp add: parse_command_def Let_def split: prod.splits)

lemma blocked_leaves_audit_log:
  assumes "status (fst (process_command lib env k command user)) = ''blocked''"
  shows "audit_logger (snd (process_command lib env k command user)) = audit_logger k
       \<and> security_gates k = None
       \<and> (\<exists>e. validate_operation lib (constitution k) (parse_command env command user)
                  = Inl (PrimeDirectiveViolation e)
              \<or> validate_operation lib (constitution k) (parse_command env command user)
                  = Inl (ProhibitedOperationViolation e))"
  using assms
  by (auto simp: process_command_def Let_def after_gates_def on_exception_def
      broadcast_alert_def agent_fleet_execute_def
      split: option.splits sum.splits violation.splits if_splits)


lemma kernel_blocks_harmful_command:
  assumes "security_gates k = None"
    and "constitution k = Constitution_init lib None"
    and "keyword \<in> set harmful_keywords"
    and "py_in keyword (py_lower command)"
  shows "process_command lib env k command user =
     (\<lparr>status = ''blocked'', output_text = ''Operation blocked: Violates Prime Directive'',
       result_operation_id = ''op_'' @ op_uuid env,
       authority_required = authority_level (parse_command env command user),
       requires_approval = False, approval_id = None,
       error = Some (''Operation op_'' @ op_uuid env @ '' violates Prime Directive: ''
                       @ PRIME_DIRECTIVE)\<rparr>,
      k\<lparr>operation_history :=
           dict_set (operation_history k) (''op_'' @ op_uuid env) (parse_command env command user),
         operations_blocked := operations_blocked k + 1,
         alerts := alerts k @
           [\<lparr>severity = ''critical'',
             message = ''Prime Directive violation: Operation op_'' @ op_uuid env
                         @ '' violates Prime Directive: '' @ PRIME_DIRECTIVE,
             alert_timestamp = utcnow_iso env, source = ''kernel''\<rparr>]\<rparr>)"
proof -
  let ?op = "parse_command env command user"
  have "violates_prime_directive ?op"
    using assms(3,4) by (intro keyword_in_description_violates) (simp_all add: description_parse_command)
  from default_constitution_raises_prime_directive[OF this, of lib]
  show ?thesis
    using assms(1,2)
    by (simp add: process_command_def Let_def after_gates_def broadcast_alert_def
        operation_id_parse_command)
qed

lemma parse_example_write_command:
  "parse_command env example_write_command user =
     \<lparr>operation_id = ''op_'' @ op_uuid env, agent_id = user, skill_name = ''file_write'',
      parameters = JObj [(''content'', JStr example_write_command)],
      authority_level = FILE_WRITE, description = example_write_command\<rparr>"
  unfolding example_write_command_def by code_simp

lemma example_write_command_admissible:
  "validate_operation lib (Constitution_init lib None)
     (parse_command env example_write_command user) = Inr True"
proof -
  let ?op = "parse_command env example_write_command user"
  have v: "\<not> violates_prime_directive ?op"
    unfolding parse_example_write_command example_write_command_def by code_simp
  have p: "check_prohibited_operations ?op = None"
    unfolding parse_example_write_command example_write_command_def by code_simp
  have c: "constraints (Constitution_init lib None) = load_default_constraints"
    by (simp add: Constitution_init_def Let_def)
  have "enforce_all load_default_constraints ?op = None"
    using v by (simp add: load_default_constraints_def enforce_constraint_def)
  then show ?thesis
    by (simp add: validate_operation_def verify_immutability_init c p)
qed

lemma kernel_defers_example_write_command:
  assumes "security_gates k = None"
    and "constitution k = Constitution_init lib None"
    and "audit_logger k = Some lg"
    and "insert_ok (audit_reads env)"
  shows "fst (process_command lib env k example_write_command user) =
      \<lparr>status = ''pending_approval'',
        output_text = ''Operation requires approval at A4: FILE_WRITE'',
        result_operation_id = ''op_'' @ op_uuid env, authority_required = FILE_WRITE,
        requires_approval = True, approval_id = Some (''apr_'' @ apr_uuid env),
        error = None\<rparr>"
    and "\<exists>row lg'. audit_logger (snd (process_command lib env k example_write_command user)) = Some lg'
           \<and> audit_table lg' = audit_table lg @ [row]
           \<and> result row = ''pending'' \<and> action row = ''file_write''
           \<and> authority row = ''AuthorityLevel.FILE_WRITE''
           \<and> last_signature lg' = signature row"
proof -
  note ev = process_command_def Let_def after_gates_def example_write_command_admissible
      assms parse_example_write_command
  show "fst (process_command lib env k example_write_command user) =
      \<lparr>status = ''pending_approval'',
        output_text = ''Operation requires approval at A4: FILE_WRITE'',
        result_operation_id = ''op_'' @ op_uuid env, authority_required = FILE_WRITE,
        requires_approval = True, approval_id = Some (''apr_'' @ apr_uuid env),
        error = None\<rparr>"
    using example_write_command_admissible[of lib env user]
    by (simp add: ev)
  show "\<exists>row lg'. audit_logger (snd (process_command lib env k example_write_command user)) = Some lg'
           \<and> audit_table lg' = audit_table lg @ [row]
           \<and> result row = ''pending'' \<and> action row = ''file_write''
           \<and> authority row = ''AuthorityLevel.FILE_WRITE''
           \<and> last_signature lg' = signature row"
    using example_write_command_admissible[of lib env user]
    by (simp add: ev log_entry_def)
qed

lemma parse_run_format_disk:
  "parse_command env ''run format disk'' user =
     \<lparr>operation_id = ''op_'' @ op_uuid env, agent_id = user, skill_name = ''shell_exec'',
      parameters = JObj [(''command'', JStr ''run format disk'')],
      authority_level = SYSTEM_EXEC, description = ''run format disk''\<rparr>"
  by code_simp

lemma parse_command_single_parameter:
  "\<exists>key v. parameters (parse_command env command user) = JObj [(key, v)]"
  by (simp add: parse_command_def Let_def)

text \<open>\<open>s.split(sep)\<close> always has a last piece, as \<open>parse_command\<close> takes it.\<close>

lemma split_acc_nonempty: "split_acc sep s skip cur \<noteq> []"
  by (induction s arbitrary: skip cur) auto

lemma py_split_nonempty: "py_split s sep \<noteq> []"
  by (simp add: py_split_def split_acc_nonempty)

text \<open>
  With a \<open>SecurityGateCoordinator\<close> configured, \<open>run_all_gates\<close> returns its dictionary
  for the kernel's request, which has none of the keys \<open>prompt\<close> and \<open>shell_command\<close>,
  and reading the attribute \<open>passed\<close>
  of it raises: every command ends in the status \<open>error\<close>, with no audit entry. The
  results below about \<open>blocked\<close> and \<open>pending_approval\<close> are therefore about a kernel
  that has no security gates.
\<close>

lemma configured_gates_give_error:
  "status (fst (process_command lib env (k\<lparr>security_gates := Some g\<rparr>) command user)) = ''error''
   \<and> error (fst (process_command lib env (k\<lparr>security_gates := Some g\<rparr>) command user))
       = Some dict_has_no_passed
   \<and> audit_logger (snd (process_command lib env (k\<lparr>security_gates := Some g\<rparr>) command user))
       = audit_logger k"
proof -
  have "returns_on [(''type'', PStr ''command''), (''content'', PStr command),
                    (''user'', PStr user)]"
    by (simp add: returns_on_def text_or_falsy_def dict_get_def)
  from collect_results_returns[OF this, of lib g]
  obtain r where "run_all_gates lib g [(''type'', PStr ''command''), (''content'', PStr command),
                       (''user'', PStr user)] = Inr r"
    by (auto simp: run_all_gates_def)
  then show ?thesis
    by (simp add: process_command_def Let_def on_exception_def broadcast_alert_def)
qed

lemma blocked_counts_the_operation:
  assumes "status (fst (process_command lib env k command user)) = ''blocked''"
  shows "operations_blocked (snd (process_command lib env k command user))
           = operations_blocked k + 1"
  using assms
  by (auto simp: process_command_def Let_def after_gates_def on_exception_def
      broadcast_alert_def agent_fleet_execute_def
      split: option.splits sum.splits violation.splits if_splits)

lemma audit_entry_means_accepted:
  assumes "audit_logger (snd (process_command lib env k command user)) \<noteq> audit_logger k"
  shows "\<exists>ok. validate_operation lib (constitution k) (parse_command env command user) = Inr ok"
  using assms
  by (auto simp: process_command_def Let_def after_gates_def on_exception_def
      broadcast_alert_def agent_fleet_execute_def
      split: option.splits sum.splits violation.splits if_splits)

lemma log_entry_state:
  "snd (log_entry lib env lg lv ac tn pa au re si ui) = lg
   \<or> (\<exists>row. snd (log_entry lib env lg lv ac tn pa au re si ui)
              = \<lparr>audit_table = audit_table lg @ [row], last_signature = signature row\<rparr>
          \<and> result row = re)"
  by (cases lg) (simp add: log_entry_def Let_def)

lemma audit_entry_is_one_pending_row:
  assumes "audit_logger (snd (process_command lib env k command user)) \<noteq> audit_logger k"
  shows "\<exists>lg row. audit_logger k = Some lg
           \<and> audit_logger (snd (process_command lib env k command user))
               = Some \<lparr>audit_table = audit_table lg @ [row], last_signature = signature row\<rparr>
           \<and> result row = ''pending''"
proof (cases "audit_logger k")
  case None
  with assms show ?thesis
    by (auto simp: process_command_def Let_def after_gates_def on_exception_def
        broadcast_alert_def agent_fleet_execute_def
        split: option.splits sum.splits violation.splits if_splits)
next
  case (Some lg)
  let ?op = "parse_command env command user"
  let ?lg' = "snd (log_entry lib (audit_reads env) lg ''OPERATION'' (skill_name ?op)
                    (case py_split (skill_name ?op) ''_'' of [] \<Rightarrow> [] | first # _ \<Rightarrow> first)
                    (Some [(''command'', JStr command), (''user'', JStr user)])
                    (level_str (authority_level ?op)) ''pending'' (Some user) None)"
  have l: "audit_logger (snd (process_command lib env k command user)) = Some ?lg'"
    using assms Some
    by (auto simp: process_command_def Let_def after_gates_def on_exception_def
        broadcast_alert_def agent_fleet_execute_def
        split: option.splits sum.splits violation.splits if_splits)
  with assms Some have "?lg' \<noteq> lg" by simp
  with log_entry_state[of lib "audit_reads env" lg "''OPERATION''" "skill_name ?op"
      "case py_split (skill_name ?op) ''_'' of [] \<Rightarrow> [] | first # _ \<Rightarrow> first"
      "Some [(''command'', JStr command), (''user'', JStr user)]"
      "level_str (authority_level ?op)" "''pending''" "Some user" None]
  obtain row where "?lg' = \<lparr>audit_table = audit_table lg @ [row],
                             last_signature = signature row\<rparr>"
    and "result row = ''pending''"
    by blast
  with l Some show ?thesis by auto
qed

text \<open>
  C3, as the code has it. \<open>process_command\<close> appends its audit entry, with the result
  \<open>pending\<close>, only after \<open>validate_operation\<close> has accepted the operation: a call that
  changes the audit logger is a call whose operation the constitution accepted, and it has
  appended exactly one row, whose result is \<open>pending\<close>. Whenever the call returns the
  status \<open>blocked\<close>, the audit logger is as it was before the call, so that no entry has
  been appended, and the counter of blocked operations has gone up by one.
\<close>

theorem blocked_command_leaves_no_audit_entry:
  "(status (fst (process_command lib env k command user)) = ''blocked'' \<longrightarrow>
        audit_logger (snd (process_command lib env k command user)) = audit_logger k
      \<and> operations_blocked (snd (process_command lib env k command user))
          = operations_blocked k + 1)
   \<and> (audit_logger (snd (process_command lib env k command user)) \<noteq> audit_logger k \<longrightarrow>
        (\<exists>ok. validate_operation lib (constitution k) (parse_command env command user) = Inr ok)
      \<and> (\<exists>lg row. audit_logger k = Some lg
            \<and> audit_logger (snd (process_command lib env k command user))
                = Some \<lparr>audit_table = audit_table lg @ [row], last_signature = signature row\<rparr>
            \<and> result row = ''pending''))"
  using blocked_leaves_audit_log[of lib env k command user]
    blocked_counts_the_operation[of lib env k command user]
    audit_entry_means_accepted[of lib env k command user]
    audit_entry_is_one_pending_row[of lib env k command user]
  by blast

text \<open>The theorem at the command \<open>wipe the disk\<close>, which the Prime Directive keyword
  check blocks, and at a \<open>file_write\<close> command, which the constitution accepts.\<close>

theorem blocked_command_leaves_no_audit_entry_witness:
  "\<forall>lib. status (fst (process_command lib example_kernel_env (example_kernel lib)
                        ''wipe the disk'' ''Randall'')) = ''blocked''
       \<and> audit_logger (snd (process_command lib example_kernel_env (example_kernel lib)
                               ''wipe the disk'' ''Randall''))
           = audit_logger (example_kernel lib)
       \<and> operations_blocked (snd (process_command lib example_kernel_env (example_kernel lib)
                               ''wipe the disk'' ''Randall'')) = 1
       \<and> audit_logger (snd (process_command lib example_kernel_env (example_kernel lib)
                               example_write_command ''Randall''))
           \<noteq> audit_logger (example_kernel lib)
       \<and> (\<exists>ok. validate_operation lib (constitution (example_kernel lib))
                  (parse_command example_kernel_env example_write_command ''Randall'') = Inr ok)
       \<and> (\<exists>row. audit_logger (snd (process_command lib example_kernel_env (example_kernel lib)
                               example_write_command ''Randall''))
                  = Some \<lparr>audit_table = [row], last_signature = signature row\<rparr>
              \<and> result row = ''pending'')"
proof
  fix lib
  let ?k = "example_kernel lib"
  let ?blocked = "process_command lib example_kernel_env ?k ''wipe the disk'' ''Randall''"
  let ?logged = "process_command lib example_kernel_env ?k example_write_command ''Randall''"
  have kw: "''wipe'' \<in> set harmful_keywords" by (simp add: harmful_keywords_def)
  have occ: "py_in ''wipe'' (py_lower ''wipe the disk'')" by code_simp
  have k: "security_gates ?k = None" "constitution ?k = Constitution_init lib None"
    by (simp_all add: example_kernel_def)
  have lg: "audit_logger ?k = Some (ImmutableAuditLog_init [])"
    by (simp add: example_kernel_def)
  have ok: "insert_ok (audit_reads example_kernel_env)"
    by (simp add: example_kernel_env_def example_audit_env_def)
  have b: "status (fst ?blocked) = ''blocked''"
    by (simp add: kernel_blocks_harmful_command[OF k kw occ])
  have zero: "operations_blocked ?k = 0" by (simp add: example_kernel_def)
  from kernel_defers_example_write_command(2)[OF k lg ok, of "''Randall''"]
  obtain row lg' where "audit_logger (snd ?logged) = Some lg'"
    and "audit_table lg' = audit_table (ImmutableAuditLog_init []) @ [row]"
    by blast
  then have c: "audit_logger (snd ?logged) \<noteq> audit_logger ?k"
    using lg by (auto simp: ImmutableAuditLog_init_def)
  note th1 = blocked_command_leaves_no_audit_entry[of lib example_kernel_env ?k
      "''wipe the disk''" "''Randall''"]
  note th2 = blocked_command_leaves_no_audit_entry[of lib example_kernel_env ?k
      example_write_command "''Randall''"]
  from th1 b zero have p1: "audit_logger (snd ?blocked) = audit_logger ?k"
    and p2: "operations_blocked (snd ?blocked) = 1"
    by simp_all
  from th2 c have p3: "\<exists>ok. validate_operation lib (constitution ?k)
                  (parse_command example_kernel_env example_write_command ''Randall'') = Inr ok"
    and p4: "\<exists>lg row. audit_logger ?k = Some lg
            \<and> audit_logger (snd ?logged)
                = Some \<lparr>audit_table = audit_table lg @ [row], last_signature = signature row\<rparr>
            \<and> result row = ''pending''"
    by blast+
  from p4 lg have p5: "\<exists>row. audit_logger (snd ?logged)
                  = Some \<lparr>audit_table = [row], last_signature = signature row\<rparr>
              \<and> result row = ''pending''"
    by (auto simp: ImmutableAuditLog_init_def)
  from b p1 p2 c p3 p5
  show "status (fst ?blocked) = ''blocked''
       \<and> audit_logger (snd ?blocked) = audit_logger ?k
       \<and> operations_blocked (snd ?blocked) = 1
       \<and> audit_logger (snd ?logged) \<noteq> audit_logger ?k
       \<and> (\<exists>ok. validate_operation lib (constitution ?k)
                  (parse_command example_kernel_env example_write_command ''Randall'') = Inr ok)
       \<and> (\<exists>row. audit_logger (snd ?logged)
                  = Some \<lparr>audit_table = [row], last_signature = signature row\<rparr>
              \<and> result row = ''pending'')"
    by blast
qed

text \<open>
  C3 as stated fails: the command \<open>delete the old logs\<close> is blocked, and the audit log,
  empty before the call, is empty after it.
\<close>

theorem blocked_without_pending_entry_counterexample:
  "\<forall>lib. status (fst (process_command lib example_kernel_env (example_kernel lib)
                        ''delete the old logs'' ''Randall'')) = ''blocked''
       \<and> audit_logger (snd (process_command lib example_kernel_env (example_kernel lib)
                               ''delete the old logs'' ''Randall''))
           = Some \<lparr>audit_table = [], last_signature = GENESIS\<rparr>"
proof
  fix lib
  have kw: "''delete'' \<in> set harmful_keywords" by (simp add: harmful_keywords_def)
  have occ: "py_in ''delete'' (py_lower ''delete the old logs'')" by code_simp
  have k: "security_gates (example_kernel lib) = None"
    "constitution (example_kernel lib) = Constitution_init lib None"
    by (simp_all add: example_kernel_def)
  show "status (fst (process_command lib example_kernel_env (example_kernel lib)
                        ''delete the old logs'' ''Randall'')) = ''blocked''
       \<and> audit_logger (snd (process_command lib example_kernel_env (example_kernel lib)
                               ''delete the old logs'' ''Randall''))
           = Some \<lparr>audit_table = [], last_signature = GENESIS\<rparr>"
    by (simp add: kernel_blocks_harmful_command[OF k kw occ])
       (simp add: example_kernel_def ImmutableAuditLog_init_def)
qed

text \<open>
  C7, as the code has it. For an operation with skill \<open>shell_exec\<close>, description
  \<open>format disk\<close> and level \<open>SYSTEM_EXEC\<close> (any id, agent and parameters) the keyword
  check finds \<open>format\<close> and the default constitution raises \<open>PrimeDirectiveViolation\<close>.
  The kernel builds its operation from a command: \<open>run format disk\<close> is read as
  \<open>shell_exec\<close> at \<open>SYSTEM_EXEC\<close>, and a kernel without security gates returns
  \<open>blocked\<close> for it, with the constitutional reason in the result's \<open>error\<close> and in a
  critical alert. Nothing else of the kernel changes but the history and the counter of
  blocked operations: the authority requirements are not read and no audit entry is
  written.
\<close>

theorem format_disk_is_blocked:
  assumes "security_gates k = None"
    and "constitution k = Constitution_init lib None"
  shows "py_in ''format'' (py_lower (''shell_exec'' @ '' '' @ ''format disk'' @ '' ''
                                       @ json_dumps False params))
       \<and> validate_operation lib (Constitution_init lib None)
           \<lparr>operation_id = oid, agent_id = aid, skill_name = ''shell_exec'',
            parameters = params, authority_level = SYSTEM_EXEC,
            description = ''format disk''\<rparr>
           = Inl (PrimeDirectiveViolation
                   (''Operation '' @ oid @ '' violates Prime Directive: '' @ PRIME_DIRECTIVE))
       \<and> skill_name (parse_command env ''run format disk'' user) = ''shell_exec''
       \<and> authority_level (parse_command env ''run format disk'' user) = SYSTEM_EXEC
       \<and> process_command lib env k ''run format disk'' user =
           (\<lparr>status = ''blocked'', output_text = ''Operation blocked: Violates Prime Directive'',
             result_operation_id = ''op_'' @ op_uuid env,
             authority_required = SYSTEM_EXEC,
             requires_approval = False, approval_id = None,
             error = Some (''Operation op_'' @ op_uuid env @ '' violates Prime Directive: ''
                             @ PRIME_DIRECTIVE)\<rparr>,
            k\<lparr>operation_history :=
                 dict_set (operation_history k) (''op_'' @ op_uuid env)
                   (parse_command env ''run format disk'' user),
               operations_blocked := operations_blocked k + 1,
               alerts := alerts k @
                 [\<lparr>severity = ''critical'',
                   message = ''Prime Directive violation: Operation op_'' @ op_uuid env
                               @ '' violates Prime Directive: '' @ PRIME_DIRECTIVE,
                   alert_timestamp = utcnow_iso env, source = ''kernel''\<rparr>]\<rparr>)
       \<and> audit_logger (snd (process_command lib env k ''run format disk'' user)) = audit_logger k"
proof -
  let ?op = "\<lparr>operation_id = oid, agent_id = aid, skill_name = ''shell_exec'',
            parameters = params, authority_level = SYSTEM_EXEC,
            description = ''format disk''\<rparr>"
  have kw: "''format'' \<in> set harmful_keywords" by (simp add: harmful_keywords_def)
  have d: "py_in ''format'' (py_lower ''format disk'')" by code_simp
  have m: "py_in ''format'' (py_lower (''shell_exec'' @ '' '' @ ''format disk'' @ '' ''
                                       @ json_dumps False params))"
    unfolding py_lower_append by (intro py_in_append_right py_in_append_left d)
  have v: "violates_prime_directive ?op"
    using kw d by (intro keyword_in_description_violates) simp_all
  have occ: "py_in ''format'' (py_lower ''run format disk'')" by code_simp
  note blk = kernel_blocks_harmful_command[OF assms kw occ, of env user]
  show ?thesis
    using m default_constitution_raises_prime_directive[OF v, of lib]
    by (simp add: blk) (simp add: parse_run_format_disk)
qed

text \<open>The theorem at the example kernel.\<close>

theorem format_disk_is_blocked_witness:
  "\<forall>lib. security_gates (example_kernel lib) = None
       \<and> constitution (example_kernel lib) = Constitution_init lib None
       \<and> validate_operation lib (Constitution_init lib None)
           \<lparr>operation_id = ''op_0123456789ab'', agent_id = ''Randall'',
            skill_name = ''shell_exec'', parameters = JObj [],
            authority_level = SYSTEM_EXEC, description = ''format disk''\<rparr>
           = Inl (PrimeDirectiveViolation
                   (''Operation op_0123456789ab violates Prime Directive: '' @ PRIME_DIRECTIVE))
       \<and> status (fst (process_command lib example_kernel_env (example_kernel lib)
                         ''run format disk'' ''Randall'')) = ''blocked''
       \<and> error (fst (process_command lib example_kernel_env (example_kernel lib)
                         ''run format disk'' ''Randall''))
           = Some (''Operation op_0123456789ab violates Prime Directive: '' @ PRIME_DIRECTIVE)
       \<and> audit_logger (snd (process_command lib example_kernel_env (example_kernel lib)
                         ''run format disk'' ''Randall'')) = audit_logger (example_kernel lib)"
proof
  fix lib
  have k: "security_gates (example_kernel lib) = None"
    "constitution (example_kernel lib) = Constitution_init lib None"
    by (simp_all add: example_kernel_def)
  from format_disk_is_blocked[OF k, of "JObj []" "''op_0123456789ab''" "''Randall''"
      example_kernel_env "''Randall''"] k
  show "security_gates (example_kernel lib) = None
       \<and> constitution (example_kernel lib) = Constitution_init lib None
       \<and> validate_operation lib (Constitution_init lib None)
           \<lparr>operation_id = ''op_0123456789ab'', agent_id = ''Randall'',
            skill_name = ''shell_exec'', parameters = JObj [],
            authority_level = SYSTEM_EXEC, description = ''format disk''\<rparr>
           = Inl (PrimeDirectiveViolation
                   (''Operation op_0123456789ab violates Prime Directive: '' @ PRIME_DIRECTIVE))
       \<and> status (fst (process_command lib example_kernel_env (example_kernel lib)
                         ''run format disk'' ''Randall'')) = ''blocked''
       \<and> error (fst (process_command lib example_kernel_env (example_kernel lib)
                         ''run format disk'' ''Randall''))
           = Some (''Operation op_0123456789ab violates Prime Directive: '' @ PRIME_DIRECTIVE)
       \<and> audit_logger (snd (process_command lib example_kernel_env (example_kernel lib)
                         ''run format disk'' ''Randall'')) = audit_logger (example_kernel lib)"
    by (simp add: example_kernel_env_def)
qed

text \<open>
  C7 as stated fails in its last part: after the blocked command the audit log holds no
  entry, so none records the constitutional reason.
\<close>

theorem format_disk_audit_entry_counterexample:
  "\<forall>lib. status (fst (process_command lib example_kernel_env (example_kernel lib)
                        ''run format disk'' ''Randall'')) = ''blocked''
       \<and> (\<exists>lg. audit_logger (snd (process_command lib example_kernel_env (example_kernel lib)
                                     ''run format disk'' ''Randall'')) = Some lg
                \<and> audit_table lg = [])"
proof
  fix lib
  have kw: "''format'' \<in> set harmful_keywords" by (simp add: harmful_keywords_def)
  have occ: "py_in ''format'' (py_lower ''run format disk'')" by code_simp
  have k: "security_gates (example_kernel lib) = None"
    "constitution (example_kernel lib) = Constitution_init lib None"
    by (simp_all add: example_kernel_def)
  show "status (fst (process_command lib example_kernel_env (example_kernel lib)
                        ''run format disk'' ''Randall'')) = ''blocked''
       \<and> (\<exists>lg. audit_logger (snd (process_command lib example_kernel_env (example_kernel lib)
                                     ''run format disk'' ''Randall'')) = Some lg
                \<and> audit_table lg = [])"
    by (simp add: kernel_blocks_harmful_command[OF k kw occ])
       (simp add: example_kernel_def ImmutableAuditLog_init_def)
qed

text \<open>
  C8, as the code has it. The kernel takes a command; \<open>write print(1) to
  /workspace/app.py\<close> is read as \<open>file_write\<close> at \<open>FILE_WRITE\<close> with the command as its
  \<open>content\<close> parameter. A kernel without security gates, with the default constitution
  and an audit logger whose insert succeeds, returns \<open>pending_approval\<close> with
  \<open>requires_approval\<close>, an approval id and the level \<open>FILE_WRITE\<close>, whose required
  quorum is 4; the result has no field for the quorum size. Exactly one audit entry has
  been appended, with the result \<open>pending\<close>.
\<close>

theorem file_write_command_pending_approval:
  assumes "security_gates k = None"
    and "constitution k = Constitution_init lib None"
    and "audit_logger k = Some lg"
    and "insert_ok (audit_reads env)"
  shows "fst (process_command lib env k example_write_command user) =
           \<lparr>status = ''pending_approval'',
            output_text = ''Operation requires approval at A4: FILE_WRITE'',
            result_operation_id = ''op_'' @ op_uuid env, authority_required = FILE_WRITE,
            requires_approval = True, approval_id = Some (''apr_'' @ apr_uuid env),
            error = None\<rparr>
       \<and> consensus_required (get_authority_requirements FILE_WRITE) = 4
       \<and> (\<exists>row lg'. audit_logger (snd (process_command lib env k example_write_command user))
                        = Some lg'
              \<and> audit_table lg' = audit_table lg @ [row]
              \<and> result row = ''pending'' \<and> action row = ''file_write''
              \<and> authority row = ''AuthorityLevel.FILE_WRITE''
              \<and> last_signature lg' = signature row)"
  using kernel_defers_example_write_command[OF assms, of user] by simp

text \<open>The theorem at the example kernel, whose audit log is empty before the call.\<close>

theorem file_write_command_pending_approval_witness:
  "\<forall>lib. security_gates (example_kernel lib) = None
       \<and> constitution (example_kernel lib) = Constitution_init lib None
       \<and> audit_logger (example_kernel lib) = Some (ImmutableAuditLog_init [])
       \<and> insert_ok (audit_reads example_kernel_env)
       \<and> status (fst (process_command lib example_kernel_env (example_kernel lib)
                         example_write_command ''Randall'')) = ''pending_approval''
       \<and> (\<exists>row lg'. audit_logger (snd (process_command lib example_kernel_env
                          (example_kernel lib) example_write_command ''Randall'')) = Some lg'
              \<and> audit_table lg' = [row] \<and> result row = ''pending'')"
proof
  fix lib
  have k: "security_gates (example_kernel lib) = None"
    "constitution (example_kernel lib) = Constitution_init lib None"
    "audit_logger (example_kernel lib) = Some (ImmutableAuditLog_init [])"
    "insert_ok (audit_reads example_kernel_env)"
    by (simp_all add: example_kernel_def example_kernel_env_def example_audit_env_def)
  have e: "audit_table (ImmutableAuditLog_init []) = []"
    by (simp add: ImmutableAuditLog_init_def)
  from file_write_command_pending_approval[OF k, of "''Randall''"] k e
  show "security_gates (example_kernel lib) = None
       \<and> constitution (example_kernel lib) = Constitution_init lib None
       \<and> audit_logger (example_kernel lib) = Some (ImmutableAuditLog_init [])
       \<and> insert_ok (audit_reads example_kernel_env)
       \<and> status (fst (process_command lib example_kernel_env (example_kernel lib)
                         example_write_command ''Randall'')) = ''pending_approval''
       \<and> (\<exists>row lg'. audit_logger (snd (process_command lib example_kernel_env
                          (example_kernel lib) example_write_command ''Randall'')) = Some lg'
              \<and> audit_table lg' = [row] \<and> result row = ''pending'')"
    by auto
qed

text \<open>
  C8 as stated fails: no command gives an operation with the parameters \<open>path\<close> and
  \<open>content\<close> of the scenario, and the result of the \<open>file_write\<close> command is the record
  below, which holds the level and the approval id and no quorum size.
\<close>

theorem file_write_result_counterexample:
  "(\<forall>env command user.
      parameters (parse_command env command user)
        \<noteq> JObj [(''path'', JStr ''/workspace/app.py''), (''content'', JStr ''print(1)'')])
   \<and> (\<forall>lib. fst (process_command lib example_kernel_env (example_kernel lib)
                    example_write_command ''Randall'') =
           \<lparr>status = ''pending_approval'',
            output_text = ''Operation requires approval at A4: FILE_WRITE'',
            result_operation_id = ''op_0123456789ab'', authority_required = FILE_WRITE,
            requires_approval = True, approval_id = Some ''apr_ba9876543210'',
            error = None\<rparr>)"
proof (intro conjI allI)
  fix env command user
  from parse_command_single_parameter[of env command user]
  show "parameters (parse_command env command user)
        \<noteq> JObj [(''path'', JStr ''/workspace/app.py''), (''content'', JStr ''print(1)'')]"
    by auto
next
  fix lib
  have k: "security_gates (example_kernel lib) = None"
    "constitution (example_kernel lib) = Constitution_init lib None"
    "audit_logger (example_kernel lib) = Some (ImmutableAuditLog_init [])"
    "insert_ok (audit_reads example_kernel_env)"
    by (simp_all add: example_kernel_def example_kernel_env_def example_audit_env_def)
  show "fst (process_command lib example_kernel_env (example_kernel lib)
                    example_write_command ''Randall'') =
           \<lparr>status = ''pending_approval'',
            output_text = ''Operation requires approval at A4: FILE_WRITE'',
            result_operation_id = ''op_0123456789ab'', authority_required = FILE_WRITE,
            requires_approval = True, approval_id = Some ''apr_ba9876543210'',
            error = None\<rparr>"
    unfolding kernel_defers_example_write_command(1)[OF k]
    by (simp add: example_kernel_env_def)
qed

section \<open>Results about the audit chain\<close>

text \<open>
  \<open>verify_chain\<close> signs every row again with the key derived from the chain head the
  object holds (\<open>_last_signature\<close>), and compares; the variable \<open>prev_signature\<close> of
  the source is assigned and never read. So the verdict on a row depends on the row and on
  the head only.
\<close>

lemma sign_entry_head:
  "sign_entry lib env (self\<lparr>audit_table := t\<rparr>) e = sign_entry lib env self e"
  by (simp add: sign_entry_def derive_key_def)

lemma row_valid_head:
  "last_signature a = last_signature b \<Longrightarrow> row_valid lib env a row = row_valid lib env b row"
  by (simp add: row_valid_def sign_entry_def derive_key_def)

lemma verify_rows_fold:
  "foldl (verify_row lib env self) acc rows =
     acc\<lparr>valid := valid acc + length (filter (row_valid lib env self) rows),
         invalid := invalid acc + length (filter (\<lambda>r. \<not> row_valid lib env self r) rows),
         errors := errors acc @ map invalid_message (filter (\<lambda>r. \<not> row_valid lib env self r) rows)\<rparr>"
proof (induction rows arbitrary: acc)
  case Nil
  then show ?case by simp
next
  case (Cons r rows)
  have step: "verify_row lib env self acc r =
      (if row_valid lib env self r then acc\<lparr>valid := valid acc + 1\<rparr>
       else acc\<lparr>invalid := invalid acc + 1, errors := errors acc @ [invalid_message r]\<rparr>)"
    by (simp add: verify_row_def row_valid_def invalid_message_def Let_def)
  show ?case
    by (cases "row_valid lib env self r") (simp_all add: Cons.IH step)
qed

lemma verify_chain_by_row:
  "verify_chain lib env self limit =
     \<lparr>total_checked = length (select_rows (audit_table self) limit),
      valid = length (filter (row_valid lib env self) (rev (select_rows (audit_table self) limit))),
      invalid = length (filter (\<lambda>r. \<not> row_valid lib env self r)
                          (rev (select_rows (audit_table self) limit))),
      errors = map invalid_message (filter (\<lambda>r. \<not> row_valid lib env self r)
                          (rev (select_rows (audit_table self) limit)))\<rparr>"
  by (simp add: verify_chain_def Let_def verify_rows_fold)

lemma select_all_rows:
  "limit < 0 \<or> int (length table) \<le> limit \<Longrightarrow> rev (select_rows table limit) = table"
  by (auto simp: select_rows_def)

lemma entry_data_signature: "entry_data (e\<lparr>signature := s\<rparr>) = entry_data e"
  by (simp add: entry_data_def)

lemma log_entry_ok:
  assumes "insert_ok env"
  shows "log_entry lib env self lv ac tn pa au re si ui =
     (Some (sign_entry lib env self (entry_data (unsigned_entry env lv ac tn pa au re si ui))),
      \<lparr>audit_table = audit_table self @
         [(unsigned_entry env lv ac tn pa au re si ui)
            \<lparr>signature := sign_entry lib env self
               (entry_data (unsigned_entry env lv ac tn pa au re si ui))\<rparr>],
       last_signature = sign_entry lib env self
               (entry_data (unsigned_entry env lv ac tn pa au re si ui))\<rparr>)"
  using assms
  by (simp add: log_entry_def unsigned_entry_def Let_def)

lemma log_entry_failed:
  assumes "\<not> insert_ok env"
  shows "log_entry lib env self lv ac tn pa au re si ui = (None, self)"
  using assms by (simp add: log_entry_def Let_def)

lemma example_two_logs:
  "snd (log_entry lib example_audit_env
         (snd (log_entry lib example_audit_env (ImmutableAuditLog_init [])
                 ''INFO'' ''read'' ''fs'' None ''A0'' ''pending'' None None))
         ''INFO'' ''list'' ''fs'' None ''A0'' ''pending'' None None)
   = \<lparr>audit_table = [example_first_row lib, example_second_row lib],
      last_signature = signature (example_second_row lib)\<rparr>"
proof -
  have ok: "insert_ok example_audit_env" by (simp add: example_audit_env_def)
  show ?thesis
    by (simp add: log_entry_ok[OF ok] example_first_row_def example_second_row_def Let_def
        ImmutableAuditLog_init_def)
qed



lemma py_encode_append: "py_encode (a @ b) = py_encode a @ py_encode b"
  by (simp add: py_encode_def)

lemma length_py_encode: "length s \<le> length (py_encode s)"
proof (induction s)
  case Nil
  then show ?case by (simp add: py_encode_def)
next
  case (Cons c s)
  have "1 \<le> length (utf8_char c)" by (simp add: utf8_char_def Let_def)
  with Cons show ?case by (simp add: py_encode_def)
qed

lemma stand_in_sign:
  "sign_entry stand_in_lib env self e =
     CHR ''h'' # py_encode (machine_id env @ '':'') @ py_encode (last_signature self)
       @ py_encode ('':'' @ py_str_int (epoch_hour env)) @ py_encode (json_dumps True e)"
  by (simp add: sign_entry_def derive_key_def stand_in_lib_def Let_def py_encode_def)

lemma stand_in_sign_longer:
  "length (py_encode (last_signature self))
     < length (py_encode (sign_entry stand_in_lib env self e))"
proof -
  have "length (py_encode (last_signature self)) < length (sign_entry stand_in_lib env self e)"
    by (simp add: stand_in_sign)
  also have "\<dots> \<le> length (py_encode (sign_entry stand_in_lib env self e))"
    by (rule length_py_encode)
  finally show ?thesis .
qed

lemma stand_in_resign_differs:
  assumes "signature row = sign_entry stand_in_lib env old (entry_data row)"
    and "length (py_encode (last_signature old)) < length (py_encode (last_signature self))"
  shows "\<not> row_valid stand_in_lib env self row"
proof
  assume "row_valid stand_in_lib env self row"
  with assms(1) have "sign_entry stand_in_lib env self (entry_data row)
      = sign_entry stand_in_lib env old (entry_data row)"
    by (simp add: row_valid_def)
  then have "py_encode (last_signature self) = py_encode (last_signature old)"
    by (simp add: stand_in_sign)
  with assms(2) show False by simp
qed

lemma example_first_row_signature:
  "signature (example_first_row lib)
     = sign_entry lib example_audit_env (ImmutableAuditLog_init [])
         (entry_data (example_first_row lib))"
  by (simp add: example_first_row_def Let_def entry_data_signature)

lemma example_second_row_signature:
  "signature (example_second_row lib)
     = sign_entry lib example_audit_env
         \<lparr>audit_table = [example_first_row lib],
          last_signature = signature (example_first_row lib)\<rparr>
         (entry_data (example_second_row lib))"
  by (simp add: example_second_row_def Let_def entry_data_signature)

lemma example_first_row_rejected_at_own_head:
  "\<not> row_valid stand_in_lib example_audit_env
       \<lparr>audit_table = t, last_signature = signature (example_first_row stand_in_lib)\<rparr>
       (example_first_row stand_in_lib)"
proof (rule stand_in_resign_differs[OF example_first_row_signature])
  show "length (py_encode (last_signature (ImmutableAuditLog_init [])))
      < length (py_encode (last_signature
          \<lparr>audit_table = t, last_signature = signature (example_first_row stand_in_lib)\<rparr>))"
    using stand_in_sign_longer[of "ImmutableAuditLog_init []" example_audit_env
        "entry_data (example_first_row stand_in_lib)"]
    by (simp add: example_first_row_signature[symmetric])
qed

lemma example_first_row_rejected_at_second_head:
  "\<not> row_valid stand_in_lib example_audit_env
       \<lparr>audit_table = t, last_signature = signature (example_second_row stand_in_lib)\<rparr>
       (example_first_row stand_in_lib)"
proof (rule stand_in_resign_differs[OF example_first_row_signature])
  let ?s1 = "\<lparr>audit_table = [example_first_row stand_in_lib],
          last_signature = signature (example_first_row stand_in_lib)\<rparr>"
  have a: "length (py_encode (last_signature (ImmutableAuditLog_init [])))
      < length (py_encode (signature (example_first_row stand_in_lib)))"
    using stand_in_sign_longer[of "ImmutableAuditLog_init []" example_audit_env
        "entry_data (example_first_row stand_in_lib)"]
    by (simp add: example_first_row_signature[symmetric])
  have b: "length (py_encode (signature (example_first_row stand_in_lib)))
      < length (py_encode (signature (example_second_row stand_in_lib)))"
    using stand_in_sign_longer[of ?s1 example_audit_env
        "entry_data (example_second_row stand_in_lib)"]
    by (simp add: example_second_row_signature[symmetric])
  from a b show "length (py_encode (last_signature (ImmutableAuditLog_init [])))
      < length (py_encode (last_signature
          \<lparr>audit_table = t, last_signature = signature (example_second_row stand_in_lib)\<rparr>))"
    by simp
qed

text \<open>
  C10. When the insert fails, \<open>log\<close> returns \<open>None\<close> and leaves the log, the chain head
  included, as it was; every later call of \<open>log\<close> then gives what it would have given had
  the failed call not been made.
\<close>

theorem failed_insert_leaves_chain_head:
  assumes "\<not> insert_ok env"
  shows "log_entry lib env self lv ac tn pa au re si ui = (None, self)
       \<and> last_signature (snd (log_entry lib env self lv ac tn pa au re si ui))
           = last_signature self
       \<and> log_entry lib env' (snd (log_entry lib env self lv ac tn pa au re si ui))
             lv' ac' tn' pa' au' re' si' ui'
           = log_entry lib env' self lv' ac' tn' pa' au' re' si' ui'"
  by (simp add: log_entry_failed[OF assms])

text \<open>The theorem at a failed insert into the empty log.\<close>

theorem failed_insert_leaves_chain_head_witness:
  "\<forall>lib. \<not> insert_ok (example_audit_env\<lparr>insert_ok := False\<rparr>)
     \<and> log_entry lib (example_audit_env\<lparr>insert_ok := False\<rparr>) (ImmutableAuditLog_init [])
          ''INFO'' ''read'' ''fs'' None ''A0'' ''pending'' None None
         = (None, \<lparr>audit_table = [], last_signature = GENESIS\<rparr>)
     \<and> fst (log_entry lib example_audit_env
              (snd (log_entry lib (example_audit_env\<lparr>insert_ok := False\<rparr>)
                      (ImmutableAuditLog_init []) ''INFO'' ''read'' ''fs'' None ''A0''
                      ''pending'' None None))
              ''INFO'' ''list'' ''fs'' None ''A0'' ''pending'' None None)
         = fst (log_entry lib example_audit_env (ImmutableAuditLog_init [])
              ''INFO'' ''list'' ''fs'' None ''A0'' ''pending'' None None)"
proof
  fix lib
  have f: "\<not> insert_ok (example_audit_env\<lparr>insert_ok := False\<rparr>)" by simp
  from failed_insert_leaves_chain_head[OF f, of lib "ImmutableAuditLog_init []"
      "''INFO''" "''read''" "''fs''" None "''A0''" "''pending''" None None
      example_audit_env "''INFO''" "''list''" "''fs''" None "''A0''" "''pending''" None None] f
  show "\<not> insert_ok (example_audit_env\<lparr>insert_ok := False\<rparr>)
     \<and> log_entry lib (example_audit_env\<lparr>insert_ok := False\<rparr>) (ImmutableAuditLog_init [])
          ''INFO'' ''read'' ''fs'' None ''A0'' ''pending'' None None
         = (None, \<lparr>audit_table = [], last_signature = GENESIS\<rparr>)
     \<and> fst (log_entry lib example_audit_env
              (snd (log_entry lib (example_audit_env\<lparr>insert_ok := False\<rparr>)
                      (ImmutableAuditLog_init []) ''INFO'' ''read'' ''fs'' None ''A0''
                      ''pending'' None None))
              ''INFO'' ''list'' ''fs'' None ''A0'' ''pending'' None None)
         = fst (log_entry lib example_audit_env (ImmutableAuditLog_init [])
              ''INFO'' ''list'' ''fs'' None ''A0'' ''pending'' None None)"
    by (simp add: ImmutableAuditLog_init_def)
qed

text \<open>
  C1 fails on the code already for one entry. After one \<open>log\<close> into an empty log the
  head is the signature of the entry, made with the key of the genesis head; \<open>verify_chain\<close>
  signs the entry again with the key of the new head. Unless the keyed hash gives the same
  signature under both keys, it reports the entry invalid: 0 valid, 1 invalid.
\<close>

theorem verify_chain_rejects_fresh_entry:
  assumes ok: "insert_ok env"
    and logged: "log_entry lib env (ImmutableAuditLog_init []) lv ac tn pa au re si ui
                   = (Some sig, self')"
    and differs: "sign_entry lib env self'
                    (entry_data (unsigned_entry env lv ac tn pa au re si ui)) \<noteq> sig"
    and lim: "limit < 0 \<or> 1 \<le> limit"
  shows "audit_table self' = [(unsigned_entry env lv ac tn pa au re si ui)\<lparr>signature := sig\<rparr>]
       \<and> last_signature self' = sig
       \<and> sig = sign_entry lib env (ImmutableAuditLog_init [])
                  (entry_data (unsigned_entry env lv ac tn pa au re si ui))
       \<and> verify_chain lib env self' limit =
           \<lparr>total_checked = 1, valid = 0, invalid = 1,
            errors = [''Entry at '' @ now_iso env @ '' has invalid signature'']\<rparr>"
proof -
  let ?e = "unsigned_entry env lv ac tn pa au re si ui"
  from logged log_entry_ok[OF ok, of lib "ImmutableAuditLog_init []" lv ac tn pa au re si ui]
  have sig: "sig = sign_entry lib env (ImmutableAuditLog_init []) (entry_data ?e)"
    and self': "self' = \<lparr>audit_table = [?e\<lparr>signature := sig\<rparr>], last_signature = sig\<rparr>"
    by (simp_all add: ImmutableAuditLog_init_def)
  have sel: "rev (select_rows (audit_table self') limit) = audit_table self'"
    using lim by (intro select_all_rows) (auto simp: self')
  have nv: "\<not> row_valid lib env self' (?e\<lparr>signature := sig\<rparr>)"
    using differs by (simp add: row_valid_def entry_data_signature)
  have t: "timestamp ?e = now_iso env" by (simp add: unsigned_entry_def)
  have len: "length (select_rows (audit_table self') limit) = 1"
    using arg_cong[OF sel, of length] by (simp add: self')
  show ?thesis
    using nv sig t len
    by (simp add: verify_chain_by_row sel) (simp add: self' invalid_message_def)
qed

text \<open>The theorem with the stand-in library, in which the two signatures differ.\<close>

theorem verify_chain_rejects_fresh_entry_witness:
  "insert_ok example_audit_env
   \<and> log_entry stand_in_lib example_audit_env (ImmutableAuditLog_init [])
        ''INFO'' ''read'' ''fs'' None ''A0'' ''pending'' None None
       = (Some (signature (example_first_row stand_in_lib)),
          \<lparr>audit_table = [example_first_row stand_in_lib],
           last_signature = signature (example_first_row stand_in_lib)\<rparr>)
   \<and> verify_chain stand_in_lib example_audit_env
        \<lparr>audit_table = [example_first_row stand_in_lib],
         last_signature = signature (example_first_row stand_in_lib)\<rparr> 1000
       = \<lparr>total_checked = 1, valid = 0, invalid = 1,
          errors = [''Entry at 2026-03-29T16:00:00.000000 has invalid signature'']\<rparr>"
proof -
  let ?e = "unsigned_entry example_audit_env ''INFO'' ''read'' ''fs'' None ''A0'' ''pending'' None None"
  let ?st = "\<lparr>audit_table = [example_first_row stand_in_lib],
           last_signature = signature (example_first_row stand_in_lib)\<rparr>"
  have ok: "insert_ok example_audit_env" by (simp add: example_audit_env_def)
  have l: "log_entry stand_in_lib example_audit_env (ImmutableAuditLog_init [])
        ''INFO'' ''read'' ''fs'' None ''A0'' ''pending'' None None
       = (Some (signature (example_first_row stand_in_lib)), ?st)"
    by (simp add: log_entry_ok[OF ok] example_first_row_def Let_def ImmutableAuditLog_init_def)
  have d: "sign_entry stand_in_lib example_audit_env ?st (entry_data ?e)
             \<noteq> signature (example_first_row stand_in_lib)"
    using example_first_row_rejected_at_own_head[of "[example_first_row stand_in_lib]"]
    by (simp add: row_valid_def example_first_row_def Let_def entry_data_signature)
  have n: "now_iso example_audit_env = ''2026-03-29T16:00:00.000000''"
    by (simp add: example_audit_env_def)
  have lim: "(1000::int) < 0 \<or> 1 \<le> (1000::int)" by simp
  note th = verify_chain_rejects_fresh_entry[OF ok l d lim]
  have m: "''Entry at '' @ now_iso example_audit_env @ '' has invalid signature''
             = ''Entry at 2026-03-29T16:00:00.000000 has invalid signature''"
    by (simp add: n)
  have v: "verify_chain stand_in_lib example_audit_env ?st 1000
       = \<lparr>total_checked = 1, valid = 0, invalid = 1,
          errors = [''Entry at 2026-03-29T16:00:00.000000 has invalid signature'']\<rparr>"
    using th[THEN conjunct2, THEN conjunct2, THEN conjunct2] unfolding m .
  show ?thesis by (intro conjI) (rule ok, rule l, rule v)
qed

text \<open>
  C2 fails on the code: no verdict propagates. With every row of the table checked, the
  rows reported invalid are those \<open>verify_chain\<close> reports for the rows before a row
  \<open>r\<close>, for \<open>r\<close> alone and for the rows after it, each part checked on its own with the
  same head. Replacing \<open>r\<close> by an edited row therefore changes the verdict on no other
  row: an earlier row that was reported invalid stays so, and a later row that was
  reported valid stays so.
\<close>

theorem verify_chain_verdicts_do_not_propagate:
  assumes "limit < 0 \<or> int (length pre + 1 + length post) \<le> limit"
  shows "errors (verify_chain lib env \<lparr>audit_table = pre @ r # post, last_signature = h\<rparr> limit)
           = errors (verify_chain lib env \<lparr>audit_table = pre, last_signature = h\<rparr> limit)
             @ errors (verify_chain lib env \<lparr>audit_table = [r], last_signature = h\<rparr> limit)
             @ errors (verify_chain lib env \<lparr>audit_table = post, last_signature = h\<rparr> limit)
       \<and> valid (verify_chain lib env \<lparr>audit_table = pre @ r # post, last_signature = h\<rparr> limit)
           = valid (verify_chain lib env \<lparr>audit_table = pre, last_signature = h\<rparr> limit)
             + valid (verify_chain lib env \<lparr>audit_table = [r], last_signature = h\<rparr> limit)
             + valid (verify_chain lib env \<lparr>audit_table = post, last_signature = h\<rparr> limit)
       \<and> invalid (verify_chain lib env \<lparr>audit_table = pre @ r # post, last_signature = h\<rparr> limit)
           = invalid (verify_chain lib env \<lparr>audit_table = pre, last_signature = h\<rparr> limit)
             + invalid (verify_chain lib env \<lparr>audit_table = [r], last_signature = h\<rparr> limit)
             + invalid (verify_chain lib env \<lparr>audit_table = post, last_signature = h\<rparr> limit)"
proof -
  have s: "rev (select_rows (pre @ r # post) limit) = pre @ r # post"
    "rev (select_rows pre limit) = pre"
    "rev (select_rows [r] limit) = [r]"
    "rev (select_rows post limit) = post"
    using assms by (auto simp: select_rows_def)
  have v: "\<And>t. row_valid lib env \<lparr>audit_table = t, last_signature = h\<rparr>
              = row_valid lib env \<lparr>audit_table = [], last_signature = h\<rparr>"
    by (rule ext) (simp add: row_valid_head)
  show ?thesis
    by (simp add: verify_chain_by_row s v[of "pre @ r # post"] v[of pre] v[of "[r]"] v[of post])
qed

text \<open>
  The theorem with the stand-in library, at the log of two entries whose second entry has
  its action edited: the first, earlier entry is reported invalid.
\<close>

theorem verify_chain_verdicts_do_not_propagate_witness:
  "(1000 < (0::int) \<or> int (length [example_first_row stand_in_lib] + 1 + length ([]::AuditEntry list)) \<le> 1000)
   \<and> snd (log_entry stand_in_lib example_audit_env
         (snd (log_entry stand_in_lib example_audit_env (ImmutableAuditLog_init [])
                 ''INFO'' ''read'' ''fs'' None ''A0'' ''pending'' None None))
         ''INFO'' ''list'' ''fs'' None ''A0'' ''pending'' None None)
       = \<lparr>audit_table = [example_first_row stand_in_lib, example_second_row stand_in_lib],
          last_signature = signature (example_second_row stand_in_lib)\<rparr>
   \<and> errors (verify_chain stand_in_lib example_audit_env
        \<lparr>audit_table = [example_first_row stand_in_lib,
                        (example_second_row stand_in_lib)\<lparr>action := ''tampered''\<rparr>],
         last_signature = signature (example_second_row stand_in_lib)\<rparr> 1000)
       = ''Entry at 2026-03-29T16:00:00.000000 has invalid signature''
         # errors (verify_chain stand_in_lib example_audit_env
              \<lparr>audit_table = [(example_second_row stand_in_lib)\<lparr>action := ''tampered''\<rparr>],
               last_signature = signature (example_second_row stand_in_lib)\<rparr> 1000)"
proof -
  let ?r1 = "example_first_row stand_in_lib"
  let ?r2 = "(example_second_row stand_in_lib)\<lparr>action := ''tampered''\<rparr>"
  let ?h = "signature (example_second_row stand_in_lib)"
  have lim: "1000 < (0::int) \<or> int (length [?r1] + 1 + length ([]::AuditEntry list)) \<le> 1000"
    by simp
  have sel: "rev (select_rows [?r1] 1000) = [?r1]"
    by (rule select_all_rows) simp
  have t: "timestamp ?r1 = ''2026-03-29T16:00:00.000000''"
    by (simp add: example_first_row_def unsigned_entry_def Let_def example_audit_env_def)
  have first: "errors (verify_chain stand_in_lib example_audit_env
                 \<lparr>audit_table = [?r1], last_signature = ?h\<rparr> 1000)
               = [''Entry at 2026-03-29T16:00:00.000000 has invalid signature'']"
    using example_first_row_rejected_at_second_head[of "[?r1]"] t
    by (simp add: verify_chain_by_row sel invalid_message_def)
  have emp: "errors (verify_chain stand_in_lib example_audit_env
                 \<lparr>audit_table = [], last_signature = ?h\<rparr> 1000) = []"
    by (simp add: verify_chain_def select_rows_def)
  from verify_chain_verdicts_do_not_propagate[OF lim, of stand_in_lib example_audit_env ?r2 ?h]
    first emp lim example_two_logs[of stand_in_lib]
  show ?thesis by simp
qed

end
